theory Spec2Isabelle
  imports Main
begin

section \<open>The ticket check of \<open>src/index.ts\<close>\<close>

text \<open>
  The action is one asynchronous function \<open>run\<close>. It reads its inputs with \<open>getInput\<close>,
  reads the pull request from the event \<open>context\<close>, and talks to three collaborators: the
  log (\<open>debug\<close>), the failure mark (\<open>setFailed\<close>) and the GitHub client
  (\<open>pulls.update\<close>, \<open>pulls.createReview\<close>). The model returns the calls made to these
  collaborators, in program order, as a list of events. The two client calls return
  promises that the source never awaits: a call is modelled as the request being issued.
\<close>

subsection \<open>Strings of the JavaScript runtime\<close>

text \<open>
  \<open>s.indexOf(pat)\<close>, as the two pieces around the first occurrence of \<open>pat\<close> in \<open>s\<close>.
\<close>

fun split_first :: "string \<Rightarrow> string \<Rightarrow> (string \<times> string) option" where
  "split_first pat [] = (if pat = [] then Some ([], []) else None)"
| "split_first pat (c # cs) =
     (if take (length pat) (c # cs) = pat then Some ([], drop (length pat) (c # cs))
      else (case split_first pat cs of
              None \<Rightarrow> None
            | Some (pre, post) \<Rightarrow> Some (c # pre, post)))"

text \<open>
  The replacement text of \<open>String.prototype.replace\<close> is not taken literally: the
  runtime expands \<open>$$\<close> to a dollar sign, \<open>$&\<close> to the matched text, \<open>$`\<close> to the text
  before the match and \<open>$'\<close> to the text after it. With a string as search value there
  are no capture groups, so every other use of \<open>$\<close> stays as it is.
\<close>

fun expand :: "string \<Rightarrow> string \<Rightarrow> string \<Rightarrow> string \<Rightarrow> string" where
  "expand matched pre post [] = []"
| "expand matched pre post [c] = [c]"
| "expand matched pre post (c # d # r) =
     (if c = CHR ''$'' then
        (if d = CHR ''$'' then CHR ''$'' # expand matched pre post r
         else if d = CHR ''&'' then matched @ expand matched pre post r
         else if d = CHR 0x60 then pre @ expand matched pre post r
         else if d = CHR 0x27 then post @ expand matched pre post r
         else c # expand matched pre post (d # r))
      else c # expand matched pre post (d # r))"

text \<open>\<open>s.replace(pat, rep)\<close> with a string \<open>pat\<close>: the first occurrence only.\<close>

definition replace :: "string \<Rightarrow> string \<Rightarrow> string \<Rightarrow> string" where
  "replace s pat rep =
     (case split_first pat s of
        None \<Rightarrow> s
      | Some (pre, post) \<Rightarrow> pre @ expand pat pre post rep @ post)"

text \<open>
  The white space that \<open>s.trim()\<close> removes: the code points that the language calls
  white space or line terminators. Strings are byte lists here, in UTF-8, so each code
  point is the list of its bytes: U+0009 to U+000D and U+0020 (one byte each), U+00A0,
  U+1680, U+2000 to U+200A, U+2028, U+2029, U+202F, U+205F, U+3000 and U+FEFF.
\<close>

definition white_space :: "string list" where
  "white_space =
     [[CHR 0x09], [CHR 0x0A], [CHR 0x0B], [CHR 0x0C], [CHR 0x0D], [CHR 0x20],
      [CHR 0xC2, CHR 0xA0],
      [CHR 0xE1, CHR 0x9A, CHR 0x80],
      [CHR 0xE2, CHR 0x80, CHR 0x80], [CHR 0xE2, CHR 0x80, CHR 0x81], [CHR 0xE2, CHR 0x80, CHR 0x82],
      [CHR 0xE2, CHR 0x80, CHR 0x83], [CHR 0xE2, CHR 0x80, CHR 0x84], [CHR 0xE2, CHR 0x80, CHR 0x85],
      [CHR 0xE2, CHR 0x80, CHR 0x86], [CHR 0xE2, CHR 0x80, CHR 0x87], [CHR 0xE2, CHR 0x80, CHR 0x88],
      [CHR 0xE2, CHR 0x80, CHR 0x89], [CHR 0xE2, CHR 0x80, CHR 0x8A],
      [CHR 0xE2, CHR 0x80, CHR 0xA8], [CHR 0xE2, CHR 0x80, CHR 0xA9], [CHR 0xE2, CHR 0x80, CHR 0xAF],
      [CHR 0xE2, CHR 0x81, CHR 0x9F],
      [CHR 0xE3, CHR 0x80, CHR 0x80],
      [CHR 0xEF, CHR 0xBB, CHR 0xBF]]"

text \<open>
  The number of bytes of the white-space character that \<open>s\<close> starts with, 0 when it starts
  with none; \<open>ws\<close> lists the white-space characters.
\<close>

definition white_at :: "string list \<Rightarrow> string \<Rightarrow> nat" where
  "white_at ws s =
     (case find (\<lambda>w. take (length w) s = w) ws of None \<Rightarrow> 0 | Some w \<Rightarrow> length w)"

fun trim_with :: "string list \<Rightarrow> string \<Rightarrow> string" where
  "trim_with ws [] = []"
| "trim_with ws (c # cs) =
     (if white_at ws (c # cs) = 0 then c # cs
      else trim_with ws (drop (white_at ws (c # cs) - 1) cs))"

text \<open>
  \<open>s.trim()\<close>: the white space at the start is removed, then the white space at the end,
  which is the white space at the start of the reversed string, each character reversed.
\<close>

definition trimStart :: "string \<Rightarrow> string" where
  "trimStart s = trim_with white_space s"

definition trimEnd :: "string \<Rightarrow> string" where
  "trimEnd s = rev (trim_with (map rev white_space) (rev s))"

definition trim :: "string \<Rightarrow> string" where
  "trim s = trimEnd (trimStart s)"

text \<open>
  No character of \<open>ws\<close> is empty or the beginning of another one, as it is for characters
  in UTF-8.
\<close>

definition prefix_free :: "string list \<Rightarrow> bool" where
  "prefix_free ws = (\<forall>w\<in>set ws. w \<noteq> [] \<and> (\<forall>w'\<in>set ws. take (length w) w' = w \<longrightarrow> w' = w))"

text \<open>
  \<open>s\<close> and the characters of \<open>ws\<close> begin differently: \<open>s\<close> does not start with one of them,
  and is not the beginning of one. For a string of whole characters this says that its
  first character is not in \<open>ws\<close>.
\<close>

definition clear_of :: "string list \<Rightarrow> string \<Rightarrow> bool" where
  "clear_of ws s = (\<forall>w\<in>set ws. take (length s) w \<noteq> take (length w) s)"

text \<open>\<open>s.split(',')\<close>: the empty string gives one empty entry.\<close>

fun split_on :: "char \<Rightarrow> string \<Rightarrow> string list" where
  "split_on sep [] = [[]]"
| "split_on sep (c # cs) =
     (if c = sep then [] # split_on sep cs
      else (case split_on sep cs of
              [] \<Rightarrow> [[c]]
            | w # ws \<Rightarrow> (c # w) # ws))"

text \<open>\<open>xs.join(',')\<close>.\<close>

fun join_with :: "string \<Rightarrow> string list \<Rightarrow> string" where
  "join_with sep [] = []"
| "join_with sep [x] = x"
| "join_with sep (x # y # ys) = x @ sep @ join_with sep (y # ys)"

text \<open>\<open>s.toUpperCase()\<close> on the ASCII letters.\<close>

definition upper_char :: "char \<Rightarrow> char" where
  "upper_char c =
     (let n = (of_char c :: nat) in if 97 \<le> n \<and> n \<le> 122 then char_of (n - 32) else c)"

definition toUpperCase :: "string \<Rightarrow> string" where
  "toUpperCase s = map upper_char s"

subsection \<open>Collaborators\<close>

text \<open>
  A compiled pattern is what \<open>exec\<close> does with it: \<open>None\<close> for \<open>null\<close>, otherwise element 0
  of the result, the matched text. The source compiles each pattern right before its
  single use, so \<open>lastIndex\<close> is 0 at every \<open>exec\<close>. The regular-expression constructor of
  the runtime is a parameter of the model: \<open>Inl\<close> carries the message of the
  \<open>SyntaxError\<close> it throws.
\<close>

type_synonym regexp = "string \<Rightarrow> string option"

type_synonym engine = "string \<Rightarrow> string \<Rightarrow> string + regexp"

datatype event =
    Log string
  | LogNull
  | SetFailed string
  | PullsUpdate string string nat string
  | PullsCreateReview string string nat string string

text \<open>
  \<open>Log message\<close> is a call of the log with a string and \<open>LogNull\<close> its call with \<open>null\<close>;
  \<open>PullsUpdate owner repo pull_number title\<close> and
  \<open>PullsCreateReview owner repo pull_number body event\<close>.
\<close>

text \<open>
  The body of a pull request in the payload: the field is missing (\<open>undefined\<close>), or it is
  \<open>null\<close>, which is what the platform sends for an empty description, or it is a string.
\<close>

datatype body_value = Undefined | Null | Text string

record pull_request =
  title :: string
  head_ref :: string
  body :: body_value
  user_login :: string
  user_type :: string

text \<open>
  The event context. The action runs on pull-request events; the fields of the pull
  request other than \<open>body\<close> are strings. \<open>json\<close> is what \<open>JSON.stringify(context)\<close> returns.
\<close>

record github_context =
  pull_request :: pull_request
  owner :: string
  repo :: string
  number :: nat
  json :: string

record environment =
  inputs :: "string \<rightharpoonup> string"
  github :: github_context

text \<open>
  Modelled from the spec: \<open>getInput(name, {required})\<close> of the configuration provider,
  a library that is not part of this repository. It returns the value supplied for the
  option \<open>name\<close>, and fails when a required option is absent. An option that is not
  supplied has the empty value.
\<close>

definition input_value :: "(string \<rightharpoonup> string) \<Rightarrow> string \<Rightarrow> string" where
  "input_value ins name = (case ins name of None \<Rightarrow> [] | Some v \<Rightarrow> v)"

definition getInput :: "(string \<rightharpoonup> string) \<Rightarrow> string \<Rightarrow> bool \<Rightarrow> string + string" where
  "getInput ins name required =
     (if required \<and> input_value ins name = []
      then Inl (''Input required and not supplied: '' @ name)
      else Inr (input_value ins name))"

subsection \<open>Control flow: events, exceptions, early returns\<close>

datatype ticket_source = Branch | Body

text \<open>
  \<open>run\<close> returns nothing; the outcome names the \<open>return\<close> statement that ended it:
  \<open>Approved\<close> is line 52, \<open>Exempted\<close> line 71, \<open>TitleUpdated\<close> lines 119 and 172,
  \<open>Rejected m\<close> every return that follows \<open>setFailed(m)\<close> (lines 95, 129, 148, 179 and
  the \<open>catch\<close> clause), \<open>Finished\<close> the end of the \<open>try\<close> block.
\<close>

datatype outcome = Approved | Exempted | TitleUpdated ticket_source | Rejected string | Finished

text \<open>
  A piece of the \<open>try\<close> block gives the events it issued and either the message of the
  exception that left it (\<open>Inl\<close>) or its result.
\<close>

type_synonym 'a block = "event list \<times> (string + 'a)"

definition emit :: "event list \<Rightarrow> 'a block \<Rightarrow> 'a block" where
  "emit es r = (es @ fst r, snd r)"

definition attempt :: "string + 'a \<Rightarrow> ('a \<Rightarrow> 'b block) \<Rightarrow> 'b block" where
  "attempt x k = (case x of Inl e \<Rightarrow> ([], Inl e) | Inr v \<Rightarrow> k v)"

definition returns :: "outcome \<Rightarrow> outcome block" where
  "returns out = ([], Inr out)"

subsection \<open>The helpers of the source\<close>

text \<open>
  \<open>extractId\<close> (lines 7 to 15). \<open>value.match(p)\<close> with a string \<open>p\<close> compiles \<open>p\<close> without
  flags and returns the result of its \<open>exec\<close>.
\<close>

definition extractId :: "engine \<Rightarrow> (string \<rightharpoonup> string) \<Rightarrow> string \<Rightarrow> string + string option" where
  "extractId RegExp ins val =
     (case getInput ins ''ticketRegex'' True of
        Inl e \<Rightarrow> Inl e
      | Inr ticketRegex \<Rightarrow>
          (case RegExp ticketRegex [] of
             Inl e \<Rightarrow> Inl e
           | Inr rx \<Rightarrow> Inr (rx val)))"

text \<open>\<open>debug\<close> (lines 17 to 22).\<close>

definition debug :: "string \<Rightarrow> string \<Rightarrow> event list" where
  "debug label message =
     [Log [], Log (''['' @ toUpperCase label @ '']''), Log message, Log []]"

text \<open>\<open>debug\<close> called with \<open>null\<close> as its message.\<close>

definition debug_null :: "string \<Rightarrow> event list" where
  "debug_null label = [Log [], Log (''['' @ toUpperCase label @ '']''), LogNull, Log []]"

text \<open>
  The source has the same four statements for the title (lines 31 to 36), the branch
  (lines 80 to 85) and the body (lines 135 to 138): read the pattern, read its flags,
  compile, \<open>exec\<close>. For the input \<open>name\<close> the flags are the input \<open>name\<close> followed by \<open>Flags\<close>.
\<close>

definition regex_check :: "engine \<Rightarrow> (string \<rightharpoonup> string) \<Rightarrow> string \<Rightarrow> string \<Rightarrow> string + string option" where
  "regex_check RegExp ins name subject =
     (case getInput ins name True of
        Inl e \<Rightarrow> Inl e
      | Inr base \<Rightarrow>
          (case getInput ins (name @ ''Flags'') True of
             Inl e \<Rightarrow> Inl e
           | Inr flags \<Rightarrow>
               (case RegExp base flags of
                  Inl e \<Rightarrow> Inl e
                | Inr rx \<Rightarrow> Inr (rx subject))))"

text \<open>The new title (lines 102 to 105 and 155 to 158).\<close>

definition new_title :: "string \<Rightarrow> string \<Rightarrow> string \<Rightarrow> string \<Rightarrow> string" where
  "new_title titleFormat ticketPrefix ticketId prTitle =
     replace (replace (replace titleFormat ''%prefix%'' ticketPrefix) ''%id%'' ticketId)
       ''%title%'' prTitle"

text \<open>The sender (line 44).\<close>

definition sender_of :: "string \<Rightarrow> string \<Rightarrow> string" where
  "sender_of login senderType =
     (if senderType = ''Bot'' then replace login ''[bot]'' [] else login)"

text \<open>The two review comments; the last six bytes are the smiling face and its variation selector.\<close>

definition smile :: string where
  "smile = [CHR 0xE2, CHR 0x98, CHR 0xBA, CHR 0xEF, CHR 0xB8, CHR 0x8F]"

definition branch_comment :: string where
  "branch_comment =
     ''Hey! I noticed that your PR contained a reference to the ticket in the branch name but not in the title. I went ahead and updated that for you. Hope you don'' @ [CHR 0x27] @ ''t mind! '' @ smile"

definition body_comment :: string where
  "body_comment =
     ''Hey! I noticed that your PR contained a reference to the ticket in the body but not in the title. I went ahead and updated that for you. Hope you don'' @ [CHR 0x27] @ ''t mind! '' @ smile"

text \<open>Lines 98 to 119 and 151 to 172: the title update, the comment unless quiet, the return.\<close>

definition update_title :: "github_context \<Rightarrow> bool \<Rightarrow> string \<Rightarrow> string \<Rightarrow> ticket_source \<Rightarrow> outcome block" where
  "update_title ctx quiet newTitle comment src =
     emit [PullsUpdate (owner ctx) (repo ctx) (number ctx) newTitle]
       (emit (if \<not> quiet
              then [PullsCreateReview (owner ctx) (repo ctx) (number ctx) comment ''COMMENT'']
              else [])
          (returns (TitleUpdated src)))"

subsection \<open>The stages of \<open>run\<close>\<close>

text \<open>
  Lines 134 to 180: the body pattern and the end of the \<open>try\<close> block. \<open>subject\<close> is the
  string that \<open>bodyRegex.exec(body)\<close> reads.
\<close>

definition check_body_text ::
  "engine \<Rightarrow> environment \<Rightarrow> bool \<Rightarrow> string \<Rightarrow> string \<Rightarrow> string option \<Rightarrow> string option
     \<Rightarrow> string \<Rightarrow> outcome block" where
  "check_body_text RegExp env quiet ticketPrefix titleFormat titleCheck branchCheck subject =
     (let pr = pull_request (github env) in
      attempt (regex_check RegExp (inputs env) ''bodyRegex'' subject) (\<lambda>bodyCheck.
        case bodyCheck of
          Some matched \<Rightarrow>
            emit (debug ''success'' ''Body contains a reference to a ticket, updating title'')
              (attempt (extractId RegExp (inputs env) matched) (\<lambda>extracted.
                 case extracted of
                   None \<Rightarrow>
                     emit [SetFailed ''Could not extract a ticket shorthand reference from the body'']
                       (returns (Rejected ''Could not extract a ticket shorthand reference from the body''))
                 | Some ticketId \<Rightarrow>
                     update_title (github env) quiet
                       (new_title titleFormat ticketPrefix ticketId (title pr))
                       body_comment Body))
        | None \<Rightarrow>
            (if titleCheck = None \<and> branchCheck = None \<and> bodyCheck = None
             then emit (debug ''failure'' ''Title, branch, and body do not contain a reference to a ticket'')
                    (emit [SetFailed ''No ticket was referenced in this pull request'']
                       (returns (Rejected ''No ticket was referenced in this pull request'')))
             else returns Finished)))"

text \<open>
  Lines 122 to 180. The test of line 125 is \<open>body === undefined\<close>: a body that is \<open>null\<close> goes
  on, is logged as it is, and \<open>exec\<close> reads it as the string \<open>null\<close>.
\<close>

definition check_body ::
  "engine \<Rightarrow> environment \<Rightarrow> bool \<Rightarrow> string \<Rightarrow> string \<Rightarrow> string option \<Rightarrow> string option
     \<Rightarrow> outcome block" where
  "check_body RegExp env quiet ticketPrefix titleFormat titleCheck branchCheck =
     (case body (pull_request (github env)) of
        Undefined \<Rightarrow>
          emit (debug ''failure'' ''Body is undefined'')
            (emit [SetFailed ''Could not retrieve the Pull Request body'']
               (returns (Rejected ''Could not retrieve the Pull Request body'')))
      | Null \<Rightarrow>
          emit (debug_null ''body contents'')
            (check_body_text RegExp env quiet ticketPrefix titleFormat titleCheck branchCheck ''null'')
      | Text b \<Rightarrow>
          emit (debug ''body contents'' b)
            (check_body_text RegExp env quiet ticketPrefix titleFormat titleCheck branchCheck b))"

text \<open>Lines 74 to 120: the title format, the prefix and the branch.\<close>

definition check_branch ::
  "engine \<Rightarrow> environment \<Rightarrow> bool \<Rightarrow> string option \<Rightarrow> outcome block" where
  "check_branch RegExp env quiet titleCheck =
     (let pr = pull_request (github env) in
      attempt (getInput (inputs env) ''ticketPrefix'' False) (\<lambda>ticketPrefix.
      attempt (getInput (inputs env) ''titleFormat'' True) (\<lambda>titleFormat.
      attempt (regex_check RegExp (inputs env) ''branchRegex'' (head_ref pr)) (\<lambda>branchCheck.
        case branchCheck of
          Some matched \<Rightarrow>
            emit (debug ''success'' ''Branch name contains a reference to a ticket, updating title'')
              (attempt (extractId RegExp (inputs env) (head_ref pr)) (\<lambda>extracted.
                 case extracted of
                   None \<Rightarrow>
                     emit [SetFailed ''Could not extract a ticket ID reference from the branch'']
                       (returns (Rejected ''Could not extract a ticket ID reference from the branch''))
                 | Some ticketId \<Rightarrow>
                     update_title (github env) quiet
                       (new_title titleFormat ticketPrefix ticketId (title pr))
                       branch_comment Branch))
        | None \<Rightarrow>
            check_body RegExp env quiet ticketPrefix titleFormat titleCheck branchCheck))))"

text \<open>The debugging entries (lines 62 to 66).\<close>

definition debug_entries :: "string \<Rightarrow> string \<Rightarrow> bool \<Rightarrow> string list \<Rightarrow> event list" where
  "debug_entries sender senderType quiet exemptUsers =
     debug ''sender'' sender @ debug ''sender type'' senderType @
     debug ''quiet mode'' (if quiet then ''true'' else ''false'') @
     debug ''exempt users'' (join_with '','' exemptUsers)"

text \<open>Lines 55 to 72: quiet mode and the exempt users.\<close>

definition check_exempt ::
  "engine \<Rightarrow> environment \<Rightarrow> string \<Rightarrow> string \<Rightarrow> string option \<Rightarrow> outcome block" where
  "check_exempt RegExp env sender senderType titleCheck =
     attempt (getInput (inputs env) ''quiet'' False) (\<lambda>quietInput.
     let quiet = (quietInput = ''true'') in
     attempt (getInput (inputs env) ''exemptUsers'' False) (\<lambda>exemptInput.
     let exemptUsers = map trim (split_on CHR '','' exemptInput) in
     emit (debug_entries sender senderType quiet exemptUsers)
       (if sender \<noteq> [] \<and> sender \<in> set exemptUsers
        then emit (debug ''success'' ''User is listed as exempt'') (returns Exempted)
        else check_branch RegExp env quiet titleCheck)))"

text \<open>
  The \<open>try\<close> block (lines 26 to 180). The token is a required input, so the token given to
  \<open>getOctokit\<close> is not empty and the client is built; the client takes no part in the
  decisions. \<open>owner\<close>, \<open>repo\<close> and \<open>number\<close> are the fields of \<open>context.issue\<close>.
\<close>

definition run_try :: "engine \<Rightarrow> environment \<Rightarrow> outcome block" where
  "run_try RegExp env =
     (let pr = pull_request (github env) in
      emit (debug ''context'' (json (github env)))
        (attempt (regex_check RegExp (inputs env) ''titleRegex'' (title pr)) (\<lambda>titleCheck.
         attempt (getInput (inputs env) ''token'' True) (\<lambda>token.
         let login = user_login pr;
             senderType = user_type pr;
             sender = sender_of login senderType
         in emit (debug ''title'' (title pr))
              (if titleCheck \<noteq> None
               then emit (debug ''success'' ''Title includes a ticket ID'') (returns Approved)
               else check_exempt RegExp env sender senderType titleCheck)))))"

text \<open>
  \<open>run\<close> (lines 24 to 184): the \<open>try\<close> block and its \<open>catch\<close> clause, which marks the run
  as failed with the message of the exception.
\<close>

definition run :: "engine \<Rightarrow> environment \<Rightarrow> event list \<times> outcome" where
  "run RegExp env =
     (case run_try RegExp env of
        (es, Inl message) \<Rightarrow> (es @ [SetFailed message], Rejected message)
      | (es, Inr out) \<Rightarrow> (es, out))"

text \<open>The requests sent to the GitHub client, and the failure marks, among the events.\<close>

fun is_request :: "event \<Rightarrow> bool" where
  "is_request (PullsUpdate _ _ _ _) = True"
| "is_request (PullsCreateReview _ _ _ _ _) = True"
| "is_request _ = False"

fun is_failure :: "event \<Rightarrow> bool" where
  "is_failure (SetFailed _) = True"
| "is_failure _ = False"

definition requests :: "event list \<Rightarrow> event list" where
  "requests es = filter is_request es"

definition failures :: "event list \<Rightarrow> event list" where
  "failures es = filter is_failure es"

subsection \<open>The words of the specification\<close>

text \<open>
  Spec-worded: the sender of a bot is its login without the trailing token \<open>[bot]\<close>.
\<close>

definition strip_bot_suffix :: "string \<Rightarrow> string" where
  "strip_bot_suffix login =
     (if 5 \<le> length login \<and> drop (length login - 5) login = ''[bot]''
      then take (length login - 5) login else login)"

text \<open>
  Spec-worded: literal replacement of the first occurrence of a token by a value, and
  the replacement of several tokens, one after the other in the order of the list.
\<close>

fun subst_first :: "string \<Rightarrow> string \<Rightarrow> string \<Rightarrow> string" where
  "subst_first [] tok v = (if tok = [] then v else [])"
| "subst_first (c # cs) tok v =
     (if take (length tok) (c # cs) = tok then v @ drop (length tok) (c # cs)
      else c # subst_first cs tok v)"

fun substitute :: "(string \<times> string) list \<Rightarrow> string \<Rightarrow> string" where
  "substitute [] s = s"
| "substitute ((tok, v) # rest) s = substitute rest (subst_first s tok v)"

subsection \<open>Notions for the proofs\<close>

text \<open>
  What a run has logged when it reaches line 74, having found no ticket in the title and
  no exemption: \<open>q\<close> is the value of the input \<open>quiet\<close> and \<open>eu\<close> the value of the input
  \<open>exemptUsers\<close>.
\<close>

definition log_to_branch :: "environment \<Rightarrow> string \<Rightarrow> string \<Rightarrow> event list" where
  "log_to_branch env q eu =
     debug ''context'' (json (github env)) @ debug ''title'' (title (pull_request (github env))) @
     debug_entries
       (sender_of (user_login (pull_request (github env))) (user_type (pull_request (github env))))
       (user_type (pull_request (github env))) (q = ''true'') (map trim (split_on CHR '','' eu))"

text \<open>
  A block marks the run as failed exactly when it returns \<open>Rejected\<close>, once, with the
  message of the outcome, as its last event.
\<close>

definition marks_failure :: "outcome block \<Rightarrow> bool" where
  "marks_failure r =
     (case snd r of
        Inr (Rejected m) \<Rightarrow> failures (fst r) = [SetFailed m] \<and> fst r \<noteq> [] \<and> last (fst r) = SetFailed m
      | _ \<Rightarrow> failures (fst r) = [])"

text \<open>A block sends requests to the client only when it returns \<open>TitleUpdated\<close>.\<close>

definition requests_only_on_update :: "outcome block \<Rightarrow> bool" where
  "requests_only_on_update r =
     (case snd r of
        Inr (TitleUpdated src) \<Rightarrow> True
      | _ \<Rightarrow> requests (fst r) = [])"

subsection \<open>A sample engine and a sample run\<close>

text \<open>
  An engine for the worked examples. It knows two shapes of pattern, and treats them as
  the runtime does: a literal, and a literal followed by \<open>[0-9]+\<close>; the leftmost match
  wins and the digits are taken greedily. The flags are none or \<open>g\<close>. Anything else is
  refused with a message, which stands for the \<open>SyntaxError\<close> of a pattern that does not
  compile.
\<close>

definition is_digit :: "char \<Rightarrow> bool" where
  "is_digit c = (c \<in> set ''0123456789'')"

definition is_meta :: "char \<Rightarrow> bool" where
  "is_meta c = (c \<in> set (''^$.*+?()[]{}|'' @ [CHR 0x5C]))"

definition match_here :: "string \<Rightarrow> bool \<Rightarrow> string \<Rightarrow> string option" where
  "match_here lit digits s =
     (let rest = drop (length lit) s in
      if take (length lit) s \<noteq> lit then None
      else if \<not> digits then Some lit
      else if takeWhile is_digit rest = [] then None
      else Some (lit @ takeWhile is_digit rest))"

fun leftmost :: "(string \<Rightarrow> string option) \<Rightarrow> string \<Rightarrow> string option" where
  "leftmost m [] = m []"
| "leftmost m (c # cs) = (case m (c # cs) of Some r \<Rightarrow> Some r | None \<Rightarrow> leftmost m cs)"

definition sample_RegExp :: engine where
  "sample_RegExp src flags =
     (let n = length src - 6;
          digits = (6 \<le> length src \<and> drop n src = ''[0-9]+'');
          lit = (if digits then take n src else src)
      in if flags \<noteq> [] \<and> flags \<noteq> ''g''
         then Inl (''Invalid flags supplied to RegExp constructor: '' @ flags)
         else if list_ex is_meta lit
         then Inl (''Invalid regular expression: /'' @ src @ ''/'')
         else Inr (leftmost (match_here lit digits)))"

definition sample_inputs :: "(string \<times> string) list" where
  "sample_inputs =
     [(''titleRegex'', ''TICK-[0-9]+''), (''titleRegexFlags'', ''g''),
      (''branchRegex'', ''TICK-[0-9]+''), (''branchRegexFlags'', ''g''),
      (''bodyRegex'', ''Fixes TICK-[0-9]+''), (''bodyRegexFlags'', ''g''),
      (''ticketRegex'', ''[0-9]+''),
      (''titleFormat'', ''[%prefix%-%id%] %title%''), (''ticketPrefix'', ''TICK''),
      (''exemptUsers'', ''dependabot, renovate''), (''quiet'', ''false''),
      (''token'', ''secret'')]"

definition sample_pr :: pull_request where
  "sample_pr =
     \<lparr> title = ''Add login flow'', head_ref = ''feature/TICK-42-login'',
       body = Text ''11 things. Fixes TICK-43'', user_login = ''alice'', user_type = ''User'' \<rparr>"

text \<open>
  The sample run with some inputs overridden (an empty value is an input that is not
  supplied) and a pull request.
\<close>

definition sample_env :: "(string \<times> string) list \<Rightarrow> pull_request \<Rightarrow> environment" where
  "sample_env overrides pr =
     \<lparr> inputs = map_of (overrides @ sample_inputs),
       github = \<lparr> pull_request = pr, owner = ''glowwVideo'', repo = ''app'', number = 7,
                  json = ''{}'' \<rparr> \<rparr>"

section \<open>Facts about the helpers\<close>

subsection \<open>First occurrence and replacement\<close>

lemma expand_literal: "CHR ''$'' \<notin> set rep \<Longrightarrow> expand m b a rep = rep"
  by (induction m b a rep rule: expand.induct) auto

lemma split_first_SomeD: "split_first pat s = Some (b, a) \<Longrightarrow> s = b @ pat @ a"
proof (induction s arbitrary: b)
  case Nil
  then show ?case by (simp split: if_splits)
next
  case (Cons c cs)
  show ?case
  proof (cases "take (length pat) (c # cs) = pat")
    case True
    with Cons.prems have "b = []" "a = drop (length pat) (c # cs)" by simp_all
    moreover have "c # cs = take (length pat) (c # cs) @ drop (length pat) (c # cs)"
      by (simp only: append_take_drop_id)
    ultimately show ?thesis using True by simp
  next
    case False
    with Cons.prems obtain b' where "split_first pat cs = Some (b', a)" "b = c # b'"
      by (auto split: option.splits)
    with Cons.IH show ?thesis by simp
  qed
qed

lemma split_first_least:
  "split_first pat s = Some (b, a) \<Longrightarrow> s = b' @ pat @ a' \<Longrightarrow> length b \<le> length b'"
proof (induction s arbitrary: b b')
  case Nil
  then show ?case by (simp split: if_splits)
next
  case (Cons c cs)
  show ?case
  proof (cases "take (length pat) (c # cs) = pat")
    case True
    with Cons.prems(1) have "b = []" by simp
    then show ?thesis by simp
  next
    case False
    with Cons.prems(1) obtain b0 where b0: "split_first pat cs = Some (b0, a)" "b = c # b0"
      by (auto split: option.splits)
    from False Cons.prems(2) have "b' \<noteq> []" by auto
    then obtain b1 where b1: "b' = c # b1" "cs = b1 @ pat @ a'"
      using Cons.prems(2) by (cases b') auto
    from Cons.IH[OF b0(1) b1(2)] b0(2) b1(1) show ?thesis by simp
  qed
qed

lemma split_first_NoneD: "split_first pat s = None \<Longrightarrow> s \<noteq> b @ pat @ a"
proof (induction s arbitrary: b)
  case Nil
  then show ?case by (auto split: if_splits)
next
  case (Cons c cs)
  from Cons.prems have np: "take (length pat) (c # cs) \<noteq> pat" and n: "split_first pat cs = None"
    by (auto split: if_splits option.splits)
  show ?case
  proof
    assume eq: "c # cs = b @ pat @ a"
    show False
    proof (cases b)
      case Nil
      with eq np show False by auto
    next
      case (Cons d b1)
      with eq have "cs = b1 @ pat @ a" by simp
      with Cons.IH[OF n] show False by blast
    qed
  qed
qed

lemma replace_first:
  assumes "s = b @ pat @ a" and "\<And>b' a'. s = b' @ pat @ a' \<Longrightarrow> length b \<le> length b'"
  shows "replace s pat rep = b @ expand pat b a rep @ a"
proof -
  obtain b0 a0 where s0: "split_first pat s = Some (b0, a0)"
    using split_first_NoneD[of pat s b a] assms(1) by (cases "split_first pat s") auto
  have e: "s = b0 @ pat @ a0" using split_first_SomeD[OF s0] .
  have "length b0 \<le> length b" using split_first_least[OF s0 assms(1)] .
  moreover have "length b \<le> length b0" using assms(2)[OF e] .
  ultimately have "length b0 = length b" by simp
  with e assms(1) have "b0 = b" "a0 = a" by auto
  with s0 show ?thesis by (simp add: replace_def)
qed

lemma replace_absent: "(\<And>b a. s \<noteq> b @ pat @ a) \<Longrightarrow> replace s pat rep = s"
  using split_first_SomeD[of pat s] by (cases "split_first pat s") (auto simp: replace_def)

subsection \<open>Inputs\<close>

lemma getInput_optional: "getInput ins name False = Inr (input_value ins name)"
  by (simp add: getInput_def)

lemma input_value_upd: "k \<noteq> name \<Longrightarrow> input_value (ins(k := v)) name = input_value ins name"
  by (simp add: input_value_def)

lemma getInput_upd: "k \<noteq> name \<Longrightarrow> getInput (ins(k := v)) name r = getInput ins name r"
  by (simp add: getInput_def input_value_upd)

lemma regex_check_upd:
  "k \<noteq> name \<Longrightarrow> k \<noteq> name @ ''Flags'' \<Longrightarrow>
     regex_check RegExp (ins(k := v)) name s = regex_check RegExp ins name s"
  by (simp add: regex_check_def getInput_upd split: sum.splits)

subsection \<open>Events\<close>

lemma requests_simps:
  "requests [] = []"
  "requests (xs @ ys) = requests xs @ requests ys"
  "requests (Log x # es) = requests es"
  "requests (LogNull # es) = requests es"
  "requests (SetFailed x # es) = requests es"
  "requests (PullsUpdate ow rp n t # es) = PullsUpdate ow rp n t # requests es"
  "requests (PullsCreateReview ow rp n b ev # es) = PullsCreateReview ow rp n b ev # requests es"
  "requests (debug label message) = []"
  "requests (debug_null label) = []"
  by (simp_all add: requests_def debug_def debug_null_def)

lemma failures_simps:
  "failures [] = []"
  "failures (xs @ ys) = failures xs @ failures ys"
  "failures (Log x # es) = failures es"
  "failures (LogNull # es) = failures es"
  "failures (SetFailed x # es) = SetFailed x # failures es"
  "failures (PullsUpdate ow rp n t # es) = failures es"
  "failures (PullsCreateReview ow rp n b ev # es) = failures es"
  "failures (debug label message) = []"
  "failures (debug_null label) = []"
  by (simp_all add: failures_def debug_def debug_null_def)

subsection \<open>White space and the entries of a list\<close>

lemma prefix_free_white_space: "prefix_free white_space"
  by code_simp

lemma prefix_free_white_space_rev: "prefix_free (map rev white_space)"
  by code_simp

lemma white_at_hit:
  assumes "prefix_free ws" and "w \<in> set ws"
  shows "white_at ws (w @ t) = length w"
proof (cases "find (\<lambda>v. take (length v) (w @ t) = v) ws")
  case None
  with assms(2) show ?thesis
    by (auto simp: find_None_iff)
next
  case (Some v)
  then have v: "v \<in> set ws" "take (length v) (w @ t) = v"
    by (auto simp: find_Some_iff)
  have "v = w"
  proof (cases "length v \<le> length w")
    case True
    with v(2) have "take (length v) w = v" by simp
    with assms v(1) show ?thesis
      by (auto simp: prefix_free_def)
  next
    case False
    then have "take (length w) v = take (length w) (take (length v) (w @ t))"
      using v(2) by simp
    also have "\<dots> = w" using False by (simp add: min_def)
    finally show ?thesis using assms v(1)
      by (auto simp: prefix_free_def)
  qed
  with Some show ?thesis by (simp add: white_at_def)
qed

lemma white_at_clear:
  assumes "clear_of ws s"
  shows "white_at ws (s @ t) = 0"
proof (cases "find (\<lambda>v. take (length v) (s @ t) = v) ws")
  case None
  then show ?thesis by (simp add: white_at_def)
next
  case (Some v)
  then have v: "v \<in> set ws" "take (length v) (s @ t) = v"
    by (auto simp: find_Some_iff)
  have "take (length s) v = take (length s) (take (length v) (s @ t))"
    using v(2) by simp
  also have "\<dots> = take (length v) s"
    by (cases "length v \<le> length s") (simp_all add: min_def)
  finally have "take (length s) v = take (length v) s" .
  with assms v(1) show ?thesis
    by (auto simp: clear_of_def)
qed

lemma trim_with_concat:
  assumes "prefix_free ws" and "set ps \<subseteq> set ws"
  shows "trim_with ws (concat ps @ r) = trim_with ws r"
  using assms(2)
proof (induction ps)
  case Nil
  then show ?case by simp
next
  case (Cons p ps)
  then have p: "p \<in> set ws" and ps: "set ps \<subseteq> set ws" by simp_all
  with assms(1) have "p \<noteq> []" by (auto simp: prefix_free_def)
  then obtain c p' where cp: "p = c # p'" by (cases p) auto
  have "white_at ws (p @ concat ps @ r) = length p"
    by (rule white_at_hit[OF assms(1) p])
  then have "trim_with ws (p @ concat ps @ r) = trim_with ws (concat ps @ r)"
    by (simp add: cp)
  with Cons.IH[OF ps] show ?case by simp
qed

lemma trim_with_clear:
  assumes "clear_of ws s" and "s \<noteq> []"
  shows "trim_with ws (s @ t) = s @ t"
proof -
  from assms(2) obtain c s' where cs: "s = c # s'" by (cases s) auto
  from white_at_clear[OF assms(1), of t] show ?thesis
    by (simp add: cs)
qed

lemma trim_padded:
  assumes "set ps \<subseteq> set white_space" and "set qs \<subseteq> set white_space" and "s \<noteq> []"
    and "clear_of white_space s" and "clear_of (map rev white_space) (rev s)"
  shows "trim (concat ps @ s @ concat qs) = s"
proof -
  have a: "trimStart (concat ps @ s @ concat qs) = s @ concat qs"
    by (simp add: trimStart_def trim_with_concat[OF prefix_free_white_space assms(1)]
          trim_with_clear[OF assms(4,3)])
  have "rev (s @ concat qs) = concat (map rev (rev qs)) @ rev s @ []"
    by (simp add: rev_concat)
  moreover have "set (map rev (rev qs)) \<subseteq> set (map rev white_space)"
    using assms(2) by auto
  moreover have "rev s \<noteq> []" using assms(3) by simp
  ultimately have "trim_with (map rev white_space) (rev (s @ concat qs)) = rev s"
    using trim_with_concat[OF prefix_free_white_space_rev, of "map rev (rev qs)" "rev s @ []"]
      trim_with_clear[OF assms(5), of "[]"]
    by simp
  then have "trimEnd (s @ concat qs) = s"
    by (simp add: trimEnd_def)
  with a show ?thesis by (simp add: trim_def)
qed

lemma split_on_single: "sep \<notin> set e \<Longrightarrow> split_on sep e = [e]"
  by (induction e) auto

lemma split_on_entry: "sep \<notin> set e \<Longrightarrow> split_on sep (e @ sep # r) = e # split_on sep r"
  by (induction e) auto

lemma split_on_join:
  assumes "es \<noteq> []" and "\<forall>e\<in>set es. sep \<notin> set e"
  shows "split_on sep (join_with [sep] es) = es"
  using assms
proof (induction "[sep]" es rule: join_with.induct)
  case 1
  then show ?case by simp
next
  case (2 x)
  then show ?case by (simp add: split_on_single)
next
  case (3 x y ys)
  then show ?case by (simp add: split_on_entry)
qed

lemma padded_entry_listed:
  assumes "es \<noteq> []" and "\<forall>e\<in>set es. CHR '','' \<notin> set e"
    and "concat ps @ s @ concat qs \<in> set es"
    and "set ps \<subseteq> set white_space" and "set qs \<subseteq> set white_space" and "s \<noteq> []"
    and "clear_of white_space s" and "clear_of (map rev white_space) (rev s)"
  shows "s \<in> set (map trim (split_on CHR '','' (join_with '','' es)))"
proof -
  have "trim (concat ps @ s @ concat qs) \<in> trim ` set es"
    using assms(3) by (rule imageI)
  then show ?thesis
    by (simp add: split_on_join[OF assms(1,2)] trim_padded[OF assms(4-8)])
qed

section \<open>The paths through \<open>run\<close>\<close>

subsection \<open>Up to the title\<close>

lemma run_try_title_error:
  assumes "regex_check RegExp (inputs env) ''titleRegex'' (title (pull_request (github env))) = Inl m"
  shows "run_try RegExp env = (debug ''context'' (json (github env)), Inl m)"
  using assms by (simp add: run_try_def attempt_def emit_def)

lemma run_try_token_error:
  assumes "regex_check RegExp (inputs env) ''titleRegex'' (title (pull_request (github env))) = Inr tc"
    and "getInput (inputs env) ''token'' True = Inl m"
  shows "run_try RegExp env = (debug ''context'' (json (github env)), Inl m)"
  using assms by (simp add: run_try_def attempt_def emit_def)

lemma run_try_approved:
  assumes "regex_check RegExp (inputs env) ''titleRegex'' (title (pull_request (github env))) = Inr (Some m)"
    and "getInput (inputs env) ''token'' True = Inr tok"
  shows "run_try RegExp env =
           (debug ''context'' (json (github env)) @ debug ''title'' (title (pull_request (github env)))
              @ debug ''success'' ''Title includes a ticket ID'', Inr Approved)"
  using assms by (simp add: run_try_def attempt_def emit_def returns_def)

lemma run_try_unmatched:
  assumes "regex_check RegExp (inputs env) ''titleRegex'' (title (pull_request (github env))) = Inr None"
    and "getInput (inputs env) ''token'' True = Inr tok"
  shows "run_try RegExp env =
           emit (debug ''context'' (json (github env)) @ debug ''title'' (title (pull_request (github env))))
             (check_exempt RegExp env
                (sender_of (user_login (pull_request (github env))) (user_type (pull_request (github env))))
                (user_type (pull_request (github env))) None)"
  using assms by (simp add: run_try_def attempt_def emit_def Let_def)

lemma run_approved:
  assumes "regex_check RegExp (inputs env) ''titleRegex'' (title (pull_request (github env))) = Inr (Some m)"
    and "getInput (inputs env) ''token'' True = Inr tok"
  shows "run RegExp env =
           (debug ''context'' (json (github env)) @ debug ''title'' (title (pull_request (github env)))
              @ debug ''success'' ''Title includes a ticket ID'', Approved)"
  by (simp add: run_def run_try_approved[OF assms])

lemma run_token_error:
  assumes "regex_check RegExp (inputs env) ''titleRegex'' (title (pull_request (github env))) = Inr tc"
    and "getInput (inputs env) ''token'' True = Inl m"
  shows "run RegExp env = (debug ''context'' (json (github env)) @ [SetFailed m], Rejected m)"
  by (simp add: run_def run_try_token_error[OF assms])

lemma run_title_error:
  assumes "regex_check RegExp (inputs env) ''titleRegex'' (title (pull_request (github env))) = Inl m"
  shows "run RegExp env = (debug ''context'' (json (github env)) @ [SetFailed m], Rejected m)"
  by (simp add: run_def run_try_title_error[OF assms])

subsection \<open>From the exemption to the body\<close>

lemma log_to_branch_quiet [simp]:
  "requests (log_to_branch env q eu) = []" "failures (log_to_branch env q eu) = []"
  by (simp_all add: log_to_branch_def debug_entries_def requests_simps failures_simps)

lemma check_exempt_hit:
  assumes "getInput (inputs env) ''quiet'' False = Inr q"
    and "getInput (inputs env) ''exemptUsers'' False = Inr eu"
    and "sender \<noteq> []" and "sender \<in> set (map trim (split_on CHR '','' eu))"
  shows "check_exempt RegExp env sender senderType tc =
           (debug_entries sender senderType (q = ''true'') (map trim (split_on CHR '','' eu))
              @ debug ''success'' ''User is listed as exempt'', Inr Exempted)"
  using assms by (simp add: check_exempt_def attempt_def emit_def returns_def)

lemma check_exempt_miss:
  assumes "getInput (inputs env) ''quiet'' False = Inr q"
    and "getInput (inputs env) ''exemptUsers'' False = Inr eu"
    and "\<not> (sender \<noteq> [] \<and> sender \<in> set (map trim (split_on CHR '','' eu)))"
  shows "check_exempt RegExp env sender senderType tc =
           emit (debug_entries sender senderType (q = ''true'') (map trim (split_on CHR '','' eu)))
             (check_branch RegExp env (q = ''true'') tc)"
  using assms by (auto simp: check_exempt_def attempt_def Let_def)

lemma emit_emit: "emit es (emit es' r) = emit (es @ es') r"
  by (simp add: emit_def)

lemma run_try_exempted:
  assumes "regex_check RegExp (inputs env) ''titleRegex'' (title (pull_request (github env))) = Inr None"
    and "getInput (inputs env) ''token'' True = Inr tok"
    and "getInput (inputs env) ''quiet'' False = Inr q"
    and "getInput (inputs env) ''exemptUsers'' False = Inr eu"
    and "sender_of (user_login (pull_request (github env))) (user_type (pull_request (github env))) \<noteq> []"
    and "sender_of (user_login (pull_request (github env))) (user_type (pull_request (github env)))
           \<in> set (map trim (split_on CHR '','' eu))"
  shows "run_try RegExp env =
           (log_to_branch env q eu @ debug ''success'' ''User is listed as exempt'', Inr Exempted)"
  by (simp add: run_try_unmatched[OF assms(1,2)] check_exempt_hit[OF assms(3,4,5,6)] emit_def
      log_to_branch_def)

lemma run_try_to_branch:
  assumes "regex_check RegExp (inputs env) ''titleRegex'' (title (pull_request (github env))) = Inr None"
    and "getInput (inputs env) ''token'' True = Inr tok"
    and "getInput (inputs env) ''quiet'' False = Inr q"
    and "getInput (inputs env) ''exemptUsers'' False = Inr eu"
    and "\<not> (sender_of (user_login (pull_request (github env))) (user_type (pull_request (github env))) \<noteq> []
          \<and> sender_of (user_login (pull_request (github env))) (user_type (pull_request (github env)))
              \<in> set (map trim (split_on CHR '','' eu)))"
  shows "run_try RegExp env = emit (log_to_branch env q eu) (check_branch RegExp env (q = ''true'') None)"
  by (simp add: run_try_unmatched[OF assms(1,2)] check_exempt_miss[OF assms(3,4,5)] emit_emit
      log_to_branch_def)

lemma update_title_eq:
  "update_title ctx quiet newTitle comment src =
     (PullsUpdate (owner ctx) (repo ctx) (number ctx) newTitle #
        (if quiet then [] else [PullsCreateReview (owner ctx) (repo ctx) (number ctx) comment ''COMMENT'']),
      Inr (TitleUpdated src))"
  by (simp add: update_title_def emit_def returns_def)

lemma check_branch_no_id:
  assumes "getInput (inputs env) ''ticketPrefix'' False = Inr tp"
    and "getInput (inputs env) ''titleFormat'' True = Inr tf"
    and "regex_check RegExp (inputs env) ''branchRegex'' (head_ref (pull_request (github env))) = Inr (Some mb)"
    and "extractId RegExp (inputs env) (head_ref (pull_request (github env))) = Inr None"
  shows "check_branch RegExp env quiet tc =
           (debug ''success'' ''Branch name contains a reference to a ticket, updating title''
              @ [SetFailed ''Could not extract a ticket ID reference from the branch''],
            Inr (Rejected ''Could not extract a ticket ID reference from the branch''))"
  using assms by (simp add: check_branch_def attempt_def emit_def returns_def)

lemma check_branch_updated:
  assumes "getInput (inputs env) ''ticketPrefix'' False = Inr tp"
    and "getInput (inputs env) ''titleFormat'' True = Inr tf"
    and "regex_check RegExp (inputs env) ''branchRegex'' (head_ref (pull_request (github env))) = Inr (Some mb)"
    and "extractId RegExp (inputs env) (head_ref (pull_request (github env))) = Inr (Some tid)"
  shows "check_branch RegExp env quiet tc =
           (debug ''success'' ''Branch name contains a reference to a ticket, updating title''
              @ PullsUpdate (owner (github env)) (repo (github env)) (number (github env))
                  (new_title tf tp tid (title (pull_request (github env))))
              # (if quiet then []
                 else [PullsCreateReview (owner (github env)) (repo (github env)) (number (github env))
                         branch_comment ''COMMENT'']),
            Inr (TitleUpdated Branch))"
  using assms by (simp add: check_branch_def attempt_def emit_def update_title_eq)

lemma check_branch_miss:
  assumes "getInput (inputs env) ''ticketPrefix'' False = Inr tp"
    and "getInput (inputs env) ''titleFormat'' True = Inr tf"
    and "regex_check RegExp (inputs env) ''branchRegex'' (head_ref (pull_request (github env))) = Inr None"
  shows "check_branch RegExp env quiet tc = check_body RegExp env quiet tp tf tc None"
  using assms by (simp add: check_branch_def attempt_def)

lemma check_body_missing:
  assumes "body (pull_request (github env)) = Undefined"
  shows "check_body RegExp env quiet tp tf tc bc =
           (debug ''failure'' ''Body is undefined''
              @ [SetFailed ''Could not retrieve the Pull Request body''],
            Inr (Rejected ''Could not retrieve the Pull Request body''))"
  using assms by (simp add: check_body_def check_body_text_def emit_def returns_def)

lemma check_body_no_id:
  assumes "body (pull_request (github env)) = Text b"
    and "regex_check RegExp (inputs env) ''bodyRegex'' b = Inr (Some mb)"
    and "extractId RegExp (inputs env) mb = Inr None"
  shows "check_body RegExp env quiet tp tf tc bc =
           (debug ''body contents'' b
              @ debug ''success'' ''Body contains a reference to a ticket, updating title''
              @ [SetFailed ''Could not extract a ticket shorthand reference from the body''],
            Inr (Rejected ''Could not extract a ticket shorthand reference from the body''))"
  using assms by (simp add: check_body_def check_body_text_def attempt_def emit_def returns_def)

lemma check_body_updated:
  assumes "body (pull_request (github env)) = Text b"
    and "regex_check RegExp (inputs env) ''bodyRegex'' b = Inr (Some mb)"
    and "extractId RegExp (inputs env) mb = Inr (Some tid)"
  shows "check_body RegExp env quiet tp tf tc bc =
           (debug ''body contents'' b
              @ debug ''success'' ''Body contains a reference to a ticket, updating title''
              @ PullsUpdate (owner (github env)) (repo (github env)) (number (github env))
                  (new_title tf tp tid (title (pull_request (github env))))
              # (if quiet then []
                 else [PullsCreateReview (owner (github env)) (repo (github env)) (number (github env))
                         body_comment ''COMMENT'']),
            Inr (TitleUpdated Body))"
  using assms by (simp add: check_body_def check_body_text_def attempt_def emit_def update_title_eq)


subsection \<open>Every block keeps the invariants\<close>

lemma marks_failure_emit: "failures es = [] \<Longrightarrow> marks_failure r \<Longrightarrow> marks_failure (emit es r)"
  by (auto simp: marks_failure_def emit_def failures_simps split: sum.splits outcome.splits)

lemma marks_failure_attempt: "(\<And>v. marks_failure (k v)) \<Longrightarrow> marks_failure (attempt x k)"
  by (cases x) (simp_all add: attempt_def marks_failure_def failures_simps)

lemma marks_failure_reject: "marks_failure (emit [SetFailed m] (returns (Rejected m)))"
  by (simp add: marks_failure_def emit_def returns_def failures_simps)

lemma marks_failure_returns: "(\<And>m. out \<noteq> Rejected m) \<Longrightarrow> marks_failure (returns out)"
  by (cases out) (auto simp: marks_failure_def returns_def failures_simps)

lemma marks_failure_update: "marks_failure (update_title ctx quiet t c src)"
  by (simp add: update_title_eq marks_failure_def failures_simps)

lemma marks_failure_body: "marks_failure (check_body RegExp env quiet tp tf tc bc)"
  unfolding check_body_def check_body_text_def Let_def
  by (auto intro!: marks_failure_emit marks_failure_attempt marks_failure_reject marks_failure_returns
        marks_failure_update simp: failures_simps split: option.splits body_value.splits)

lemma marks_failure_branch: "marks_failure (check_branch RegExp env quiet tc)"
  unfolding check_branch_def Let_def
  by (auto intro!: marks_failure_emit marks_failure_attempt marks_failure_reject marks_failure_returns
        marks_failure_update marks_failure_body simp: failures_simps split: option.splits)

lemma marks_failure_exempt: "marks_failure (check_exempt RegExp env sender st tc)"
  unfolding check_exempt_def Let_def
  by (auto intro!: marks_failure_emit marks_failure_attempt marks_failure_reject marks_failure_returns
        marks_failure_branch simp: failures_simps debug_entries_def)

lemma marks_failure_run_try: "marks_failure (run_try RegExp env)"
  unfolding run_try_def Let_def
  by (auto intro!: marks_failure_emit marks_failure_attempt marks_failure_reject marks_failure_returns
        marks_failure_exempt simp: failures_simps)

lemma rou_emit: "requests es = [] \<Longrightarrow> requests_only_on_update r \<Longrightarrow> requests_only_on_update (emit es r)"
  by (auto simp: requests_only_on_update_def emit_def requests_simps split: sum.splits outcome.splits)

lemma rou_attempt: "(\<And>v. requests_only_on_update (k v)) \<Longrightarrow> requests_only_on_update (attempt x k)"
  by (cases x) (simp_all add: attempt_def requests_only_on_update_def requests_simps)

lemma rou_returns: "requests_only_on_update (returns out)"
  by (cases out) (simp_all add: requests_only_on_update_def returns_def requests_simps)

lemma rou_update: "requests_only_on_update (update_title ctx quiet t c src)"
  by (simp add: update_title_eq requests_only_on_update_def)

lemma rou_body: "requests_only_on_update (check_body RegExp env quiet tp tf tc bc)"
  unfolding check_body_def check_body_text_def Let_def
  by (auto intro!: rou_emit rou_attempt rou_returns rou_update simp: requests_simps
        split: option.splits body_value.splits)

lemma rou_branch: "requests_only_on_update (check_branch RegExp env quiet tc)"
  unfolding check_branch_def Let_def
  by (auto intro!: rou_emit rou_attempt rou_returns rou_update rou_body simp: requests_simps split: option.splits)

lemma rou_exempt: "requests_only_on_update (check_exempt RegExp env sender st tc)"
  unfolding check_exempt_def Let_def
  by (auto intro!: rou_emit rou_attempt rou_returns rou_branch simp: requests_simps debug_entries_def)

lemma rou_run_try: "requests_only_on_update (run_try RegExp env)"
  unfolding run_try_def Let_def
  by (auto intro!: rou_emit rou_attempt rou_returns rou_exempt simp: requests_simps)

subsection \<open>The whole run\<close>

lemma run_returned: "run_try RegExp env = (es, Inr out) \<Longrightarrow> run RegExp env = (es, out)"
  by (simp add: run_def)

lemma run_exempted:
  assumes "regex_check RegExp (inputs env) ''titleRegex'' (title (pull_request (github env))) = Inr None"
    and "getInput (inputs env) ''token'' True = Inr tok"
    and "getInput (inputs env) ''exemptUsers'' False = Inr eu"
    and "sender_of (user_login (pull_request (github env))) (user_type (pull_request (github env))) \<noteq> []"
    and "sender_of (user_login (pull_request (github env))) (user_type (pull_request (github env)))
           \<in> set (map trim (split_on CHR '','' eu))"
  shows "run RegExp env =
           (log_to_branch env (input_value (inputs env) ''quiet'') eu
              @ debug ''success'' ''User is listed as exempt'', Exempted)"
  by (rule run_returned) (rule run_try_exempted[OF assms(1,2) getInput_optional assms(3,4,5)])

lemma run_to_branch:
  assumes "regex_check RegExp (inputs env) ''titleRegex'' (title (pull_request (github env))) = Inr None"
    and "getInput (inputs env) ''token'' True = Inr tok"
    and "getInput (inputs env) ''quiet'' False = Inr q"
    and "getInput (inputs env) ''exemptUsers'' False = Inr eu"
    and "\<not> (sender_of (user_login (pull_request (github env))) (user_type (pull_request (github env))) \<noteq> []
          \<and> sender_of (user_login (pull_request (github env))) (user_type (pull_request (github env)))
              \<in> set (map trim (split_on CHR '','' eu)))"
    and "check_branch RegExp env (q = ''true'') None = (es, Inr out)"
  shows "run RegExp env = (log_to_branch env q eu @ es, out)"
  by (rule run_returned) (simp add: run_try_to_branch[OF assms(1-5)] assms(6) emit_def)

lemma run_to_body:
  assumes "regex_check RegExp (inputs env) ''titleRegex'' (title (pull_request (github env))) = Inr None"
    and "getInput (inputs env) ''token'' True = Inr tok"
    and "getInput (inputs env) ''quiet'' False = Inr q"
    and "getInput (inputs env) ''exemptUsers'' False = Inr eu"
    and "\<not> (sender_of (user_login (pull_request (github env))) (user_type (pull_request (github env))) \<noteq> []
          \<and> sender_of (user_login (pull_request (github env))) (user_type (pull_request (github env)))
              \<in> set (map trim (split_on CHR '','' eu)))"
    and "getInput (inputs env) ''ticketPrefix'' False = Inr tp"
    and "getInput (inputs env) ''titleFormat'' True = Inr tf"
    and "regex_check RegExp (inputs env) ''branchRegex'' (head_ref (pull_request (github env))) = Inr None"
    and "check_body RegExp env (q = ''true'') tp tf None None = (es, Inr out)"
  shows "run RegExp env = (log_to_branch env q eu @ es, out)"
  by (rule run_to_branch[OF assms(1-5)]) (simp add: check_branch_miss[OF assms(6-8)] assms(9))

subsection \<open>Occurrences found by their first character\<close>

lemma first_occurrence_by_head:
  assumes "p \<notin> set b" and "b @ (p # ps) @ a = b' @ (p # ps) @ a'"
  shows "length b \<le> length b'"
proof (rule ccontr)
  assume "\<not> length b \<le> length b'"
  then have l: "length b' < length b" by simp
  from assms(2) have "take (Suc (length b')) (b @ (p # ps) @ a) = take (Suc (length b')) (b' @ (p # ps) @ a')"
    by simp
  with l have "take (Suc (length b')) b = b' @ [p]"
    by simp
  then have "p \<in> set (take (Suc (length b')) b)"
    by simp
  then have "p \<in> set b"
    by (rule in_set_takeD)
  with assms(1) show False by simp
qed

lemma no_occurrence_by_head: "p \<notin> set s \<Longrightarrow> s \<noteq> b @ (p # ps) @ a"
  by auto

lemma sender_of_suffix:
  assumes "CHR ''['' \<notin> set b"
  shows "sender_of (b @ ''[bot]'') ''Bot'' = b"
proof -
  have "replace (b @ ''[bot]'') ''[bot]'' [] = b @ expand ''[bot]'' b [] [] @ []"
    by (rule replace_first) (simp, rule first_occurrence_by_head[OF assms, of "''bot]''" "[]"], simp)
  then show ?thesis by (simp add: sender_of_def)
qed

lemma strip_bot_suffix_append: "strip_bot_suffix (b @ ''[bot]'') = b"
  by (simp add: strip_bot_suffix_def)

subsection \<open>Replacement without dollar signs\<close>

lemma replace_literal:
  assumes "CHR ''$'' \<notin> set rep"
  shows "replace s pat rep = subst_first s pat rep"
proof (induction s)
  case Nil
  then show ?case
    by (simp add: replace_def expand_literal[OF assms])
next
  case (Cons c cs)
  show ?case
  proof (cases "take (length pat) (c # cs) = pat")
    case True
    then show ?thesis
      by (simp add: replace_def expand_literal[OF assms])
  next
    case False
    show ?thesis
    proof (cases "split_first pat cs")
      case None
      with Cons.IH have "subst_first cs pat rep = cs"
        by (simp add: replace_def)
      with None False show ?thesis
        by (simp add: replace_def)
    next
      case (Some ba)
      obtain b a where ba: "ba = (b, a)" by (cases ba)
      with Some Cons.IH have "subst_first cs pat rep = b @ rep @ a"
        by (simp add: replace_def expand_literal[OF assms])
      with Some ba False show ?thesis
        by (simp add: replace_def expand_literal[OF assms])
    qed
  qed
qed

subsection \<open>Failure marks and exceptions of a run\<close>

lemma run_thrown_snd:
  "snd (run_try RegExp env) = Inl m \<Longrightarrow>
     run RegExp env = (fst (run_try RegExp env) @ [SetFailed m], Rejected m)"
  by (cases "run_try RegExp env") (simp add: run_def)



lemma run_try_thrown_failures:
  assumes "snd (run_try RegExp env) = Inl m"
  shows "failures (fst (run_try RegExp env)) = []"
  using marks_failure_run_try[of RegExp env] assms by (simp add: marks_failure_def)

lemma run_try_thrown_requests:
  assumes "snd (run_try RegExp env) = Inl m"
  shows "requests (fst (run_try RegExp env)) = []"
  using rou_run_try[of RegExp env] assms by (simp add: requests_only_on_update_def)


lemma snd_emit: "snd (emit es r) = snd r"
  by (simp add: emit_def)

lemma run_thrown_facts:
  assumes "snd (run_try RegExp env) = Inl m"
  shows "snd (run RegExp env) = Rejected m \<and> requests (fst (run RegExp env)) = []
         \<and> failures (fst (run RegExp env)) = [SetFailed m]"
  by (simp add: run_thrown_snd[OF assms] run_try_thrown_requests[OF assms]
        run_try_thrown_failures[OF assms] requests_simps failures_simps)

lemma check_branch_thrown:
  assumes "getInput (inputs env) ''titleFormat'' True = Inl m
         \<or> (getInput (inputs env) ''titleFormat'' True = Inr tf
              \<and> regex_check RegExp (inputs env) ''branchRegex'' (head_ref (pull_request (github env))) = Inl m)
         \<or> (getInput (inputs env) ''titleFormat'' True = Inr tf
              \<and> regex_check RegExp (inputs env) ''branchRegex'' (head_ref (pull_request (github env))) = Inr (Some mb)
              \<and> extractId RegExp (inputs env) (head_ref (pull_request (github env))) = Inl m)"
  shows "snd (check_branch RegExp env quiet tc) = Inl m"
  using assms by (auto simp: check_branch_def attempt_def emit_def getInput_optional)

lemma check_body_thrown:
  assumes "body (pull_request (github env)) = Text b"
    and "regex_check RegExp (inputs env) ''bodyRegex'' b = Inl m
         \<or> (regex_check RegExp (inputs env) ''bodyRegex'' b = Inr (Some mb)
              \<and> extractId RegExp (inputs env) mb = Inl m)"
  shows "snd (check_body RegExp env quiet tp tf tc bc) = Inl m"
  using assms by (auto simp: check_body_def check_body_text_def attempt_def emit_def)

lemma run_try_branch_thrown:
  assumes "regex_check RegExp (inputs env) ''titleRegex'' (title (pull_request (github env))) = Inr None"
    and "getInput (inputs env) ''token'' True = Inr tok"
    and "getInput (inputs env) ''exemptUsers'' False = Inr eu"
    and "\<not> (sender_of (user_login (pull_request (github env))) (user_type (pull_request (github env))) \<noteq> []
          \<and> sender_of (user_login (pull_request (github env))) (user_type (pull_request (github env)))
              \<in> set (map trim (split_on CHR '','' eu)))"
    and "getInput (inputs env) ''titleFormat'' True = Inl m
         \<or> (getInput (inputs env) ''titleFormat'' True = Inr tf
              \<and> regex_check RegExp (inputs env) ''branchRegex'' (head_ref (pull_request (github env))) = Inl m)
         \<or> (getInput (inputs env) ''titleFormat'' True = Inr tf
              \<and> regex_check RegExp (inputs env) ''branchRegex'' (head_ref (pull_request (github env))) = Inr (Some mb)
              \<and> extractId RegExp (inputs env) (head_ref (pull_request (github env))) = Inl m)"
  shows "snd (run_try RegExp env) = Inl m"
  by (simp add: run_try_to_branch[OF assms(1,2) getInput_optional assms(3,4)] snd_emit
        check_branch_thrown[OF assms(5)])

lemma run_try_body_thrown:
  assumes "regex_check RegExp (inputs env) ''titleRegex'' (title (pull_request (github env))) = Inr None"
    and "getInput (inputs env) ''token'' True = Inr tok"
    and "getInput (inputs env) ''exemptUsers'' False = Inr eu"
    and "\<not> (sender_of (user_login (pull_request (github env))) (user_type (pull_request (github env))) \<noteq> []
          \<and> sender_of (user_login (pull_request (github env))) (user_type (pull_request (github env)))
              \<in> set (map trim (split_on CHR '','' eu)))"
    and "getInput (inputs env) ''titleFormat'' True = Inr tf"
    and "regex_check RegExp (inputs env) ''branchRegex'' (head_ref (pull_request (github env))) = Inr None"
    and "body (pull_request (github env)) = Text b"
    and "regex_check RegExp (inputs env) ''bodyRegex'' b = Inl m
         \<or> (regex_check RegExp (inputs env) ''bodyRegex'' b = Inr (Some mb)
              \<and> extractId RegExp (inputs env) mb = Inl m)"
  shows "snd (run_try RegExp env) = Inl m"
  by (simp add: run_try_to_branch[OF assms(1,2) getInput_optional assms(3,4)] snd_emit
        check_branch_miss[OF getInput_optional assms(5,6)] check_body_thrown[OF assms(7,8)])

lemma run_title_phase_thrown:
  assumes "getInput (inputs env) ''titleRegex'' True = Inl m
         \<or> (getInput (inputs env) ''titleRegex'' True = Inr base
              \<and> getInput (inputs env) ''titleRegexFlags'' True = Inl m)
         \<or> (getInput (inputs env) ''titleRegex'' True = Inr base
              \<and> getInput (inputs env) ''titleRegexFlags'' True = Inr flags
              \<and> RegExp base flags = Inl m)
         \<or> (regex_check RegExp (inputs env) ''titleRegex'' (title (pull_request (github env))) = Inr tc
              \<and> getInput (inputs env) ''token'' True = Inl m)"
  shows "run RegExp env = (debug ''context'' (json (github env)) @ [SetFailed m], Rejected m)"
proof (cases "regex_check RegExp (inputs env) ''titleRegex'' (title (pull_request (github env)))")
  case (Inl e)
  with assms have "e = m"
    by (auto simp: regex_check_def)
  with Inl show ?thesis
    by (simp add: run_title_error)
next
  case (Inr c)
  with assms have "getInput (inputs env) ''token'' True = Inl m"
    by (auto simp: regex_check_def)
  with Inr show ?thesis
    by (simp add: run_token_error)
qed

subsection \<open>Inputs that a run does not read\<close>

lemma getInput_cong: "ins' name = ins name \<Longrightarrow> getInput ins' name r = getInput ins name r"
  by (simp add: getInput_def input_value_def)

lemma regex_check_cong:
  "ins' name = ins name \<Longrightarrow> ins' (name @ ''Flags'') = ins (name @ ''Flags'') \<Longrightarrow>
     regex_check RegExp ins' name s = regex_check RegExp ins name s"
  by (simp add: regex_check_def getInput_cong[of ins' name ins] getInput_cong[of ins' "name @ ''Flags''" ins]
        split: sum.splits)

lemma extractId_cong:
  "ins' ''ticketRegex'' = ins ''ticketRegex'' \<Longrightarrow> extractId RegExp ins' s = extractId RegExp ins s"
  by (simp add: extractId_def getInput_cong[of ins' "''ticketRegex''" ins])

lemma run_approved_inputs:
  assumes "regex_check RegExp (inputs env) ''titleRegex'' (title (pull_request (github env))) = Inr (Some mt)"
    and "getInput (inputs env) ''token'' True = Inr tok"
    and "ins' ''titleRegex'' = inputs env ''titleRegex''"
    and "ins' ''titleRegexFlags'' = inputs env ''titleRegexFlags''"
    and "ins' ''token'' = inputs env ''token''"
  shows "run RegExp (env\<lparr>inputs := ins'\<rparr>) = run RegExp env \<and> snd (run RegExp env) = Approved
         \<and> failures (fst (run RegExp env)) = []"
proof -
  let ?env' = "env\<lparr>inputs := ins'\<rparr>"
  have g: "github ?env' = github env" and i: "inputs ?env' = ins'"
    by simp_all
  have a: "regex_check RegExp (inputs ?env') ''titleRegex'' (title (pull_request (github ?env'))) = Inr (Some mt)"
    unfolding g i using assms(1) regex_check_cong[of ins' "''titleRegex''" "inputs env" RegExp] assms(3,4)
    by simp
  have b: "getInput (inputs ?env') ''token'' True = Inr tok"
    unfolding i using assms(2) getInput_cong[of ins' "''token''" "inputs env", OF assms(5)] by simp
  show ?thesis
    unfolding run_approved[OF a b] run_approved[OF assms(1,2)] g
    by (simp add: failures_simps)
qed

lemma run_exempted_inputs:
  assumes "regex_check RegExp (inputs env) ''titleRegex'' (title (pull_request (github env))) = Inr None"
    and "getInput (inputs env) ''token'' True = Inr tok"
    and "getInput (inputs env) ''exemptUsers'' False = Inr eu"
    and "sender_of (user_login (pull_request (github env))) (user_type (pull_request (github env))) \<noteq> []"
    and "sender_of (user_login (pull_request (github env))) (user_type (pull_request (github env)))
           \<in> set (map trim (split_on CHR '','' eu))"
    and "ins' ''titleRegex'' = inputs env ''titleRegex''"
    and "ins' ''titleRegexFlags'' = inputs env ''titleRegexFlags''"
    and "ins' ''token'' = inputs env ''token''"
    and "ins' ''quiet'' = inputs env ''quiet''"
    and "ins' ''exemptUsers'' = inputs env ''exemptUsers''"
  shows "run RegExp (env\<lparr>inputs := ins'\<rparr>) = run RegExp env \<and> snd (run RegExp env) = Exempted
         \<and> failures (fst (run RegExp env)) = []"
proof -
  let ?env' = "env\<lparr>inputs := ins'\<rparr>"
  have g: "github ?env' = github env" and i: "inputs ?env' = ins'"
    by simp_all
  have a: "regex_check RegExp (inputs ?env') ''titleRegex'' (title (pull_request (github ?env'))) = Inr None"
    unfolding g i using assms(1) regex_check_cong[of ins' "''titleRegex''" "inputs env" RegExp] assms(6,7)
    by simp
  have b: "getInput (inputs ?env') ''token'' True = Inr tok"
    unfolding i using assms(2) getInput_cong[of ins' "''token''" "inputs env", OF assms(8)] by simp
  have c: "getInput (inputs ?env') ''exemptUsers'' False = Inr eu"
    unfolding i using assms(3) getInput_cong[of ins' "''exemptUsers''" "inputs env", OF assms(10)] by simp
  have d: "sender_of (user_login (pull_request (github ?env'))) (user_type (pull_request (github ?env'))) \<noteq> []"
    "sender_of (user_login (pull_request (github ?env'))) (user_type (pull_request (github ?env')))
           \<in> set (map trim (split_on CHR '','' eu))"
    unfolding g using assms(4,5) by simp_all
  have q: "input_value (inputs ?env') ''quiet'' = input_value (inputs env) ''quiet''"
    unfolding i by (simp add: input_value_def assms(9))
  have l: "log_to_branch ?env' = log_to_branch env"
    by (simp add: log_to_branch_def fun_eq_iff)
  show ?thesis
    unfolding run_exempted[OF a b c d] run_exempted[OF assms(1-5)] q l
    by (simp add: failures_simps)
qed

lemma run_branch_match_inputs:
  assumes "regex_check RegExp (inputs env) ''titleRegex'' (title (pull_request (github env))) = Inr None"
    and "getInput (inputs env) ''token'' True = Inr tok"
    and "getInput (inputs env) ''exemptUsers'' False = Inr eu"
    and "\<not> (sender_of (user_login (pull_request (github env))) (user_type (pull_request (github env))) \<noteq> []
          \<and> sender_of (user_login (pull_request (github env))) (user_type (pull_request (github env)))
              \<in> set (map trim (split_on CHR '','' eu)))"
    and "getInput (inputs env) ''titleFormat'' True = Inr tf"
    and "regex_check RegExp (inputs env) ''branchRegex'' (head_ref (pull_request (github env))) = Inr (Some mb)"
    and "extractId RegExp (inputs env) (head_ref (pull_request (github env))) = Inr x"
    and "\<forall>k. k \<noteq> ''bodyRegex'' \<and> k \<noteq> ''bodyRegexFlags'' \<longrightarrow> ins' k = inputs env k"
  shows "run RegExp (env\<lparr>inputs := ins'\<rparr>) = run RegExp env"
proof -
  let ?env' = "env\<lparr>inputs := ins'\<rparr>"
  let ?q = "input_value (inputs env) ''quiet''"
  let ?tp = "input_value (inputs env) ''ticketPrefix''"
  have g: "github ?env' = github env" and i: "inputs ?env' = ins'"
    by simp_all
  have k: "ins' ''titleRegex'' = inputs env ''titleRegex''"
    "ins' ''titleRegexFlags'' = inputs env ''titleRegexFlags''"
    "ins' ''token'' = inputs env ''token''" "ins' ''quiet'' = inputs env ''quiet''"
    "ins' ''exemptUsers'' = inputs env ''exemptUsers''" "ins' ''ticketPrefix'' = inputs env ''ticketPrefix''"
    "ins' ''titleFormat'' = inputs env ''titleFormat''" "ins' ''branchRegex'' = inputs env ''branchRegex''"
    "ins' ''branchRegexFlags'' = inputs env ''branchRegexFlags''"
    "ins' ''ticketRegex'' = inputs env ''ticketRegex''"
    using assms(8) by simp_all
  have h': "regex_check RegExp (inputs ?env') ''titleRegex'' (title (pull_request (github ?env'))) = Inr None"
    "getInput (inputs ?env') ''token'' True = Inr tok"
    "getInput (inputs ?env') ''quiet'' False = Inr ?q"
    "getInput (inputs ?env') ''exemptUsers'' False = Inr eu"
    "getInput (inputs ?env') ''ticketPrefix'' False = Inr ?tp"
    "getInput (inputs ?env') ''titleFormat'' True = Inr tf"
    "regex_check RegExp (inputs ?env') ''branchRegex'' (head_ref (pull_request (github ?env'))) = Inr (Some mb)"
    "extractId RegExp (inputs ?env') (head_ref (pull_request (github ?env'))) = Inr x"
    unfolding g i
    using assms(1,2,3,5,6,7)
      regex_check_cong[of ins' "''titleRegex''" "inputs env" RegExp]
      regex_check_cong[of ins' "''branchRegex''" "inputs env" RegExp]
      getInput_cong[of ins' "''token''" "inputs env", OF k(3)] getInput_cong[of ins' "''quiet''" "inputs env", OF k(4)] getInput_cong[of ins' "''exemptUsers''" "inputs env", OF k(5)] getInput_cong[of ins' "''ticketPrefix''" "inputs env", OF k(6)]
      getInput_cong[of ins' "''titleFormat''" "inputs env", OF k(7)] extractId_cong[of ins' "inputs env" RegExp, OF k(10)]
    by (simp_all add: k getInput_optional input_value_def)
  have n': "\<not> (sender_of (user_login (pull_request (github ?env'))) (user_type (pull_request (github ?env'))) \<noteq> []
          \<and> sender_of (user_login (pull_request (github ?env'))) (user_type (pull_request (github ?env')))
              \<in> set (map trim (split_on CHR '','' eu)))"
    unfolding g using assms(4) .
  have l: "log_to_branch ?env' = log_to_branch env"
    by (simp add: log_to_branch_def fun_eq_iff)
  show ?thesis
  proof (cases x)
    case None
    have "check_branch RegExp ?env' (?q = ''true'') None = check_branch RegExp env (?q = ''true'') None"
      unfolding check_branch_no_id[OF h'(5,6,7) h'(8)[unfolded None]]
        check_branch_no_id[OF getInput_optional assms(5,6) assms(7)[unfolded None]] ..
    then show ?thesis
      using run_to_branch[OF h'(1-4) n' check_branch_no_id[OF h'(5,6,7) h'(8)[unfolded None]]]
        run_to_branch[OF assms(1,2) getInput_optional assms(3,4)
          check_branch_no_id[OF getInput_optional assms(5,6) assms(7)[unfolded None]]]
      by (simp add: l)
  next
    case (Some tid)
    show ?thesis
      using run_to_branch[OF h'(1-4) n' check_branch_updated[OF h'(5,6,7) h'(8)[unfolded Some]]]
        run_to_branch[OF assms(1,2) getInput_optional assms(3,4)
          check_branch_updated[OF getInput_optional assms(5,6) assms(7)[unfolded Some]]]
      by (simp add: l g)
  qed
qed

section \<open>The claims\<close>

text \<open>
  C1 (as amended). When the token is supplied and the compiled title pattern matches the
  title, \<open>run\<close> returns at line 52 (\<open>Approved\<close>): it has logged the context, the title and
  the success and nothing else, it has sent no request and marked no failure. The
  branch name, the body, the author and the list of exempt users have no part in the
  run: changing all of them changes nothing.
\<close>

theorem title_match_approves:
  assumes "regex_check RegExp (inputs env) ''titleRegex'' (title (pull_request (github env))) = Inr (Some m)"
    and "getInput (inputs env) ''token'' True = Inr tok"
  shows "run RegExp env =
           (debug ''context'' (json (github env)) @ debug ''title'' (title (pull_request (github env)))
              @ debug ''success'' ''Title includes a ticket ID'', Approved)
         \<and> requests (fst (run RegExp env)) = []
         \<and> failures (fst (run RegExp env)) = []
         \<and> run RegExp
              (env\<lparr>inputs := (inputs env)(''exemptUsers'' := exempt),
                   github := (github env)\<lparr>pull_request :=
                     (pull_request (github env))\<lparr>head_ref := branch', body := body',
                        user_login := login', user_type := type'\<rparr>\<rparr>\<rparr>)
             = run RegExp env"
proof -
  let ?env' = "env\<lparr>inputs := (inputs env)(''exemptUsers'' := exempt),
                   github := (github env)\<lparr>pull_request :=
                     (pull_request (github env))\<lparr>head_ref := branch', body := body',
                        user_login := login', user_type := type'\<rparr>\<rparr>\<rparr>"
  have a: "regex_check RegExp (inputs ?env') ''titleRegex'' (title (pull_request (github ?env'))) = Inr (Some m)"
    using assms(1) by (simp add: regex_check_upd)
  have b: "getInput (inputs ?env') ''token'' True = Inr tok"
    using assms(2) by (simp add: getInput_upd)
  have "run RegExp ?env' = run RegExp env"
    by (simp add: run_approved[OF a b] run_approved[OF assms])
  then show ?thesis
    by (simp add: run_approved[OF assms] requests_simps failures_simps)
qed

theorem title_match_approves_witness:
  "run sample_RegExp (sample_env [] (sample_pr\<lparr>title := ''TICK-7 Add login flow''\<rparr>)) =
     ([Log [], Log ''[CONTEXT]'', Log ''{}'', Log [], Log [], Log ''[TITLE]'',
       Log ''TICK-7 Add login flow'', Log [], Log [], Log ''[SUCCESS]'',
       Log ''Title includes a ticket ID'', Log []], Approved)"
proof -
  let ?env = "sample_env [] (sample_pr\<lparr>title := ''TICK-7 Add login flow''\<rparr>)"
  have a: "regex_check sample_RegExp (inputs ?env) ''titleRegex'' (title (pull_request (github ?env)))
             = Inr (Some ''TICK-7'')"
    by code_simp
  have b: "getInput (inputs ?env) ''token'' True = Inr ''secret''"
    by code_simp
  have c: "debug ''context'' ''{}'' @ debug ''title'' ''TICK-7 Add login flow''
             @ debug ''success'' ''Title includes a ticket ID''
           = [Log [], Log ''[CONTEXT]'', Log ''{}'', Log [], Log [], Log ''[TITLE]'',
              Log ''TICK-7 Add login flow'', Log [], Log [], Log ''[SUCCESS]'',
              Log ''Title includes a ticket ID'', Log []]"
    by code_simp
  from title_match_approves[OF a b] show ?thesis
    by (simp add: sample_env_def c)
qed

text \<open>
  C1 as stated fails: in the sample run with a title that matches the title pattern and
  no token, \<open>run\<close> does not return \<open>Approved\<close>; the token is read at line 39, before the
  decision of line 49.
\<close>

theorem title_match_without_token_counterexample:
  "regex_check sample_RegExp
     (inputs (sample_env [(''token'', [])] (sample_pr\<lparr>title := ''TICK-7 Add login flow''\<rparr>)))
     ''titleRegex''
     (title (pull_request (github (sample_env [(''token'', [])] (sample_pr\<lparr>title := ''TICK-7 Add login flow''\<rparr>)))))
     = Inr (Some ''TICK-7'')
   \<and> snd (run sample_RegExp (sample_env [(''token'', [])] (sample_pr\<lparr>title := ''TICK-7 Add login flow''\<rparr>)))
       = Rejected ''Input required and not supplied: token''
   \<and> snd (run sample_RegExp (sample_env [(''token'', [])] (sample_pr\<lparr>title := ''TICK-7 Add login flow''\<rparr>)))
       \<noteq> Approved"
  by code_simp

text \<open>
  C2. When the title does not match, the token is supplied, and the sender computed at
  line 44 is not empty and is one of the entries of the input \<open>exemptUsers\<close>, split at the
  commas and each entry trimmed, \<open>run\<close> returns at line 71 (\<open>Exempted\<close>): no request is sent and
  no failure is marked. The branch name and the body have no part in the run, whatever
  they contain. The sender is such an entry in particular when the input is a list of
  entries joined by commas and one of them is the sender with white space before and
  after it, of any of the kinds that \<open>trim\<close> removes.
\<close>

theorem exempt_sender_exempted:
  assumes "pr = pull_request (github env)" and "ins = inputs env"
    and "sender = sender_of (user_login pr) (user_type pr)"
    and "regex_check RegExp ins ''titleRegex'' (title pr) = Inr None"
    and "getInput ins ''token'' True = Inr tok"
    and "getInput ins ''exemptUsers'' False = Inr eu"
    and "sender \<noteq> []"
  shows "sender \<in> set (map trim (split_on CHR '','' eu))
         \<or> (eu = join_with '','' es \<and> es \<noteq> [] \<and> (\<forall>e\<in>set es. CHR '','' \<notin> set e)
             \<and> concat ps @ sender @ concat qs \<in> set es
             \<and> set ps \<subseteq> set white_space \<and> set qs \<subseteq> set white_space
             \<and> clear_of white_space sender \<and> clear_of (map rev white_space) (rev sender))
         \<longrightarrow> snd (run RegExp env) = Exempted
             \<and> requests (fst (run RegExp env)) = []
             \<and> failures (fst (run RegExp env)) = []
             \<and> run RegExp
                  (env\<lparr>github := (github env)\<lparr>pull_request :=
                     (pull_request (github env))\<lparr>head_ref := branch', body := body'\<rparr>\<rparr>\<rparr>)
                 = run RegExp env"
proof
  let ?env' = "env\<lparr>github := (github env)\<lparr>pull_request :=
                 (pull_request (github env))\<lparr>head_ref := branch', body := body'\<rparr>\<rparr>\<rparr>"
  assume "sender \<in> set (map trim (split_on CHR '','' eu))
         \<or> (eu = join_with '','' es \<and> es \<noteq> [] \<and> (\<forall>e\<in>set es. CHR '','' \<notin> set e)
             \<and> concat ps @ sender @ concat qs \<in> set es
             \<and> set ps \<subseteq> set white_space \<and> set qs \<subseteq> set white_space
             \<and> clear_of white_space sender \<and> clear_of (map rev white_space) (rev sender))"
  then have m: "sender \<in> set (map trim (split_on CHR '','' eu))"
    using padded_entry_listed[of es ps sender qs] assms(7) by blast
  note h = assms(4-6)[unfolded assms(1,2)] assms(7)[unfolded assms(3,1)] m[unfolded assms(3,1)]
  have r: "run RegExp env =
          (log_to_branch env (input_value (inputs env) ''quiet'') eu
             @ debug ''success'' ''User is listed as exempt'', Exempted)"
    by (rule run_exempted[OF h])
  have "run RegExp ?env' =
          (log_to_branch ?env' (input_value (inputs ?env') ''quiet'') eu
             @ debug ''success'' ''User is listed as exempt'', Exempted)"
    by (rule run_exempted[where tok = tok]) (use h in simp_all)
  then have "run RegExp ?env' = run RegExp env"
    by (simp add: r log_to_branch_def)
  then show "snd (run RegExp env) = Exempted
             \<and> requests (fst (run RegExp env)) = []
             \<and> failures (fst (run RegExp env)) = []
             \<and> run RegExp ?env' = run RegExp env"
    by (simp add: r requests_simps failures_simps)
qed

theorem exempt_sender_exempted_witness:
  "snd (run sample_RegExp
         (sample_env [(''exemptUsers'', ''dependabot,'' @ [CHR 0xC2, CHR 0xA0] @ '' renovate '' @ [CHR 0x09])]
            (sample_pr\<lparr>user_login := ''renovate[bot]'', user_type := ''Bot''\<rparr>)))
     = Exempted
   \<and> requests (fst (run sample_RegExp
         (sample_env [(''exemptUsers'', ''dependabot,'' @ [CHR 0xC2, CHR 0xA0] @ '' renovate '' @ [CHR 0x09])]
            (sample_pr\<lparr>user_login := ''renovate[bot]'', user_type := ''Bot''\<rparr>)))) = []
   \<and> extractId sample_RegExp (inputs (sample_env [] sample_pr)) (head_ref sample_pr) = Inr (Some ''42'')"
proof -
  let ?env = "sample_env [(''exemptUsers'', ''dependabot,'' @ [CHR 0xC2, CHR 0xA0] @ '' renovate '' @ [CHR 0x09])]
                (sample_pr\<lparr>user_login := ''renovate[bot]'', user_type := ''Bot''\<rparr>)"
  let ?eu = "''dependabot,'' @ [CHR 0xC2, CHR 0xA0] @ '' renovate '' @ [CHR 0x09]"
  let ?es = "[''dependabot'', concat [[CHR 0xC2, CHR 0xA0], '' ''] @ ''renovate'' @ concat ['' '', [CHR 0x09]]]"
  have s: "''renovate'' = sender_of (user_login (pull_request (github ?env))) (user_type (pull_request (github ?env)))"
    by code_simp
  have a: "regex_check sample_RegExp (inputs ?env) ''titleRegex'' (title (pull_request (github ?env))) = Inr None"
    by code_simp
  have b: "getInput (inputs ?env) ''token'' True = Inr ''secret''"
    by code_simp
  have c: "getInput (inputs ?env) ''exemptUsers'' False = Inr ?eu"
    by code_simp
  have d: "''renovate'' \<noteq> []"
    by simp
  have e: "?eu = join_with '','' ?es" "?es \<noteq> []" "\<forall>e\<in>set ?es. CHR '','' \<notin> set e"
    "concat [[CHR 0xC2, CHR 0xA0], '' ''] @ ''renovate'' @ concat ['' '', [CHR 0x09]] \<in> set ?es"
    by simp_all
  have w: "set [[CHR 0xC2, CHR 0xA0], '' ''] \<subseteq> set white_space" "set ['' '', [CHR 0x09]] \<subseteq> set white_space"
    by (simp_all add: white_space_def)
  have k: "clear_of white_space ''renovate''" "clear_of (map rev white_space) (rev ''renovate'')"
    by code_simp+
  have f: "extractId sample_RegExp (inputs (sample_env [] sample_pr)) (head_ref sample_pr) = Inr (Some ''42'')"
    by code_simp
  note t = exempt_sender_exempted[OF refl refl s a b c d, where es = ?es
      and ps = "[[CHR 0xC2, CHR 0xA0], '' '']" and qs = "['' '', [CHR 0x09]]", THEN mp]
  have r: "snd (run sample_RegExp ?env) = Exempted
      \<and> requests (fst (run sample_RegExp ?env)) = []
      \<and> failures (fst (run sample_RegExp ?env)) = []
      \<and> run sample_RegExp
           (?env\<lparr>github := (github ?env)\<lparr>pull_request :=
              (pull_request (github ?env))\<lparr>head_ref := ''feature/login'', body := Null\<rparr>\<rparr>\<rparr>)
          = run sample_RegExp ?env"
    by (rule t) (intro disjI2 conjI e w k)
  show ?thesis
    by (intro conjI r[THEN conjunct1] r[THEN conjunct2, THEN conjunct1] f)
qed

text \<open>
  C3 (as amended). The sender of line 44: for an author whose type is not \<open>Bot\<close> it is the
  login, unchanged. For a \<open>Bot\<close> it is the login without the first occurrence of the text
  \<open>[bot]\<close>, wherever that occurrence stands, and the login itself when \<open>[bot]\<close> does not
  occur. When the login ends with \<open>[bot]\<close> and has no bracket before, that first occurrence
  is the trailing token, and the sender is the login without it, as the specification
  words it; \<open>foo[bot]\<close> gives \<open>foo\<close>.
\<close>

theorem sender_removes_first_bot_token:
  "(senderType \<noteq> ''Bot'' \<longrightarrow> sender_of login senderType = login)
   \<and> ((\<forall>b a. login \<noteq> b @ ''[bot]'' @ a) \<longrightarrow> sender_of login ''Bot'' = login)
   \<and> (login = b @ ''[bot]'' @ a \<and> (\<forall>b' a'. login = b' @ ''[bot]'' @ a' \<longrightarrow> length b \<le> length b')
        \<longrightarrow> sender_of login ''Bot'' = b @ a)
   \<and> (CHR ''['' \<notin> set b \<longrightarrow>
         sender_of (b @ ''[bot]'') ''Bot'' = b \<and> strip_bot_suffix (b @ ''[bot]'') = b)
   \<and> sender_of ''foo[bot]'' ''Bot'' = ''foo''"
proof (intro conjI impI)
  assume "senderType \<noteq> ''Bot''"
  then show "sender_of login senderType = login"
    by (simp add: sender_of_def)
next
  assume "\<forall>b a. login \<noteq> b @ ''[bot]'' @ a"
  then have "replace login ''[bot]'' [] = login"
    by (intro replace_absent) simp
  then show "sender_of login ''Bot'' = login"
    by (simp add: sender_of_def)
next
  assume h: "login = b @ ''[bot]'' @ a \<and> (\<forall>b' a'. login = b' @ ''[bot]'' @ a' \<longrightarrow> length b \<le> length b')"
  have "replace login ''[bot]'' [] = b @ expand ''[bot]'' b a [] @ a"
    by (rule replace_first) (use h in blast)+
  then show "sender_of login ''Bot'' = b @ a"
    by (simp add: sender_of_def)
next
  assume "CHR ''['' \<notin> set b"
  then show "sender_of (b @ ''[bot]'') ''Bot'' = b"
    by (rule sender_of_suffix)
next
  show "strip_bot_suffix (b @ ''[bot]'') = b"
    by (rule strip_bot_suffix_append)
next
  show "sender_of ''foo[bot]'' ''Bot'' = ''foo''"
    by code_simp
qed

text \<open>
  The theorem at three logins: one without the token, one with the token inside and at the
  end, one with the token at the end only.
\<close>

theorem sender_removes_first_bot_token_witness:
  "sender_of ''octocat'' ''User'' = ''octocat''
   \<and> sender_of ''octocat'' ''Bot'' = ''octocat''
   \<and> sender_of ''my[bot]app[bot]'' ''Bot'' = ''myapp[bot]''
   \<and> sender_of ''dependabot[bot]'' ''Bot'' = ''dependabot''
   \<and> strip_bot_suffix ''dependabot[bot]'' = ''dependabot''"
proof -
  have n: "\<forall>b a. ''octocat'' \<noteq> b @ ''[bot]'' @ a"
    by (intro allI no_occurrence_by_head) simp
  have f: "\<forall>b' a'. ''my[bot]app[bot]'' = b' @ ''[bot]'' @ a' \<longrightarrow> length ''my'' \<le> length b'"
  proof (intro allI impI)
    fix b' a' :: string
    assume e: "''my[bot]app[bot]'' = b' @ ''[bot]'' @ a'"
    have "CHR ''['' \<notin> set ''my''" by simp
    moreover from e have "''my'' @ (CHR ''['' # ''bot]'') @ ''app[bot]'' = b' @ (CHR ''['' # ''bot]'') @ a'"
      by simp
    ultimately show "length ''my'' \<le> length b'"
      by (rule first_occurrence_by_head)
  qed
  have d: "CHR ''['' \<notin> set ''dependabot''" by simp
  note t1 = sender_removes_first_bot_token[where senderType = "''User''" and login = "''octocat''"]
  note t2 = sender_removes_first_bot_token[where login = "''my[bot]app[bot]''" and b = "''my''" and a = "''app[bot]''"]
  note t3 = sender_removes_first_bot_token[where b = "''dependabot''"]
  from t1 have r1: "sender_of ''octocat'' ''User'' = ''octocat''" by simp
  from t1 n have r2: "sender_of ''octocat'' ''Bot'' = ''octocat''" by blast
  from t2 f have r3: "sender_of ''my[bot]app[bot]'' ''Bot'' = ''my'' @ ''app[bot]''" by simp
  from t3 d have r4: "sender_of (''dependabot'' @ ''[bot]'') ''Bot'' = ''dependabot''"
    and r5: "strip_bot_suffix (''dependabot'' @ ''[bot]'') = ''dependabot''" by blast+
  from r1 r2 r3 r4 r5 show ?thesis by simp
qed

text \<open>
  C3 as stated fails: for the login \<open>my[bot]app[bot]\<close> of a \<open>Bot\<close>, line 44 removes the first
  \<open>[bot]\<close> and keeps the trailing one, where the specification removes the trailing one.
\<close>

theorem sender_inner_bot_token_counterexample:
  "sender_of ''my[bot]app[bot]'' ''Bot'' = ''myapp[bot]''
   \<and> strip_bot_suffix ''my[bot]app[bot]'' = ''my[bot]app''
   \<and> sender_of ''my[bot]app[bot]'' ''Bot'' \<noteq> strip_bot_suffix ''my[bot]app[bot]''"
  by code_simp

text \<open>
  C4. When the run reaches the branch, the branch pattern matches the branch name and
  \<open>extractId\<close> finds nothing in the branch name, \<open>run\<close> marks the failure with the message
  about the branch as its last event and returns at line 95 (\<open>Rejected\<close>). It sends no
  request. The body and the body pattern have no part in the run: changing the body, the
  input \<open>bodyRegex\<close> and the input \<open>bodyRegexFlags\<close> changes nothing.
\<close>

theorem branch_without_id_rejected:
  assumes "pr = pull_request (github env)" and "ins = inputs env"
    and "regex_check RegExp ins ''titleRegex'' (title pr) = Inr None"
    and "getInput ins ''token'' True = Inr tok"
    and "getInput ins ''exemptUsers'' False = Inr eu"
    and "\<not> (sender_of (user_login pr) (user_type pr) \<noteq> []
          \<and> sender_of (user_login pr) (user_type pr) \<in> set (map trim (split_on CHR '','' eu)))"
    and "getInput ins ''titleFormat'' True = Inr tf"
    and "regex_check RegExp ins ''branchRegex'' (head_ref pr) = Inr (Some mb)"
    and "extractId RegExp ins (head_ref pr) = Inr None"
  shows "snd (run RegExp env) = Rejected ''Could not extract a ticket ID reference from the branch''
         \<and> requests (fst (run RegExp env)) = []
         \<and> failures (fst (run RegExp env)) = [SetFailed ''Could not extract a ticket ID reference from the branch'']
         \<and> last (fst (run RegExp env)) = SetFailed ''Could not extract a ticket ID reference from the branch''
         \<and> run RegExp
              (env\<lparr>inputs := (inputs env)(''bodyRegex'' := bodyRegex', ''bodyRegexFlags'' := bodyRegexFlags'),
                   github := (github env)\<lparr>pull_request := (pull_request (github env))\<lparr>body := body'\<rparr>\<rparr>\<rparr>)
             = run RegExp env"
proof -
  let ?ins' = "(inputs env)(''bodyRegex'' := bodyRegex', ''bodyRegexFlags'' := bodyRegexFlags')"
  let ?env' = "env\<lparr>inputs := ?ins',
                   github := (github env)\<lparr>pull_request := (pull_request (github env))\<lparr>body := body'\<rparr>\<rparr>\<rparr>"
  let ?q = "input_value (inputs env) ''quiet''"
  let ?tp = "input_value (inputs env) ''ticketPrefix''"
  let ?es = "debug ''success'' ''Branch name contains a reference to a ticket, updating title''
               @ [SetFailed ''Could not extract a ticket ID reference from the branch'']"
  note h = assms(3-9)[unfolded assms(1,2)]
  have r: "run RegExp env =
             (log_to_branch env ?q eu @ ?es, Rejected ''Could not extract a ticket ID reference from the branch'')"
    by (rule run_to_branch[OF h(1,2) getInput_optional h(3,4)])
       (rule check_branch_no_id[OF getInput_optional h(5,6,7)])
  have i': "inputs ?env' = ?ins'"
    and p': "title (pull_request (github ?env')) = title (pull_request (github env))"
      "head_ref (pull_request (github ?env')) = head_ref (pull_request (github env))"
      "user_login (pull_request (github ?env')) = user_login (pull_request (github env))"
      "user_type (pull_request (github ?env')) = user_type (pull_request (github env))"
      "json (github ?env') = json (github env)"
    by simp_all
  have g: "getInput ?ins' name r = getInput (inputs env) name r"
    if "name \<noteq> ''bodyRegex''" "name \<noteq> ''bodyRegexFlags''" for name r
    using that by (simp add: getInput_def input_value_def)
  have c: "regex_check RegExp ?ins' name s = regex_check RegExp (inputs env) name s"
    if "name \<noteq> ''bodyRegex''" "name \<noteq> ''bodyRegexFlags''"
       "name @ ''Flags'' \<noteq> ''bodyRegex''" "name @ ''Flags'' \<noteq> ''bodyRegexFlags''" for name s
    using that by (simp add: regex_check_def g split: sum.splits)
  have x: "extractId RegExp ?ins' s = extractId RegExp (inputs env) s" for s
    by (simp add: extractId_def g)
  have q': "getInput (inputs ?env') ''quiet'' False = Inr ?q"
    and tp': "getInput (inputs ?env') ''ticketPrefix'' False = Inr ?tp"
    unfolding i' by (simp_all add: getInput_optional input_value_def)
  have h': "regex_check RegExp (inputs ?env') ''titleRegex'' (title (pull_request (github ?env'))) = Inr None"
    "getInput (inputs ?env') ''token'' True = Inr tok"
    "getInput (inputs ?env') ''exemptUsers'' False = Inr eu"
    "\<not> (sender_of (user_login (pull_request (github ?env'))) (user_type (pull_request (github ?env'))) \<noteq> []
          \<and> sender_of (user_login (pull_request (github ?env'))) (user_type (pull_request (github ?env')))
              \<in> set (map trim (split_on CHR '','' eu)))"
    "getInput (inputs ?env') ''titleFormat'' True = Inr tf"
    "regex_check RegExp (inputs ?env') ''branchRegex'' (head_ref (pull_request (github ?env'))) = Inr (Some mb)"
    "extractId RegExp (inputs ?env') (head_ref (pull_request (github ?env'))) = Inr None"
    unfolding i' p'
    using h by (simp_all add: g c x)
  have r': "run RegExp ?env' =
             (log_to_branch ?env' ?q eu @ ?es, Rejected ''Could not extract a ticket ID reference from the branch'')"
    by (rule run_to_branch[OF h'(1,2) q' h'(3,4)]) (rule check_branch_no_id[OF tp' h'(5-7)])
  have l: "log_to_branch ?env' ?q eu = log_to_branch env ?q eu"
    unfolding log_to_branch_def p' ..
  have "run RegExp ?env' = run RegExp env"
    unfolding r r' l ..
  then show ?thesis
    unfolding r by (simp add: requests_simps failures_simps)
qed

theorem branch_without_id_rejected_witness:
  "snd (run sample_RegExp
          (sample_env [(''branchRegex'', ''feature''), (''ticketRegex'', ''TICK-[0-9]+'')]
             (sample_pr\<lparr>head_ref := ''feature/login''\<rparr>)))
     = Rejected ''Could not extract a ticket ID reference from the branch''
   \<and> requests (fst (run sample_RegExp
          (sample_env [(''branchRegex'', ''feature''), (''ticketRegex'', ''TICK-[0-9]+'')]
             (sample_pr\<lparr>head_ref := ''feature/login''\<rparr>)))) = []
   \<and> regex_check sample_RegExp
         (inputs (sample_env [(''branchRegex'', ''feature''), (''ticketRegex'', ''TICK-[0-9]+'')]
             (sample_pr\<lparr>head_ref := ''feature/login''\<rparr>)))
         ''bodyRegex'' ''11 things. Fixes TICK-43'' = Inr (Some ''Fixes TICK-43'')"
proof -
  let ?env = "sample_env [(''branchRegex'', ''feature''), (''ticketRegex'', ''TICK-[0-9]+'')]
                (sample_pr\<lparr>head_ref := ''feature/login''\<rparr>)"
  let ?pr = "pull_request (github ?env)"
  have a: "regex_check sample_RegExp (inputs ?env) ''titleRegex'' (title ?pr) = Inr None"
    by code_simp
  have b: "getInput (inputs ?env) ''token'' True = Inr ''secret''"
    by code_simp
  have c: "getInput (inputs ?env) ''exemptUsers'' False = Inr ''dependabot, renovate''"
    by code_simp
  have d: "\<not> (sender_of (user_login ?pr) (user_type ?pr) \<noteq> []
          \<and> sender_of (user_login ?pr) (user_type ?pr)
               \<in> set (map trim (split_on CHR '','' ''dependabot, renovate'')))"
    by code_simp
  have e: "getInput (inputs ?env) ''titleFormat'' True = Inr ''[%prefix%-%id%] %title%''"
    by code_simp
  have f: "regex_check sample_RegExp (inputs ?env) ''branchRegex'' (head_ref ?pr) = Inr (Some ''feature'')"
    by code_simp
  have g: "extractId sample_RegExp (inputs ?env) (head_ref ?pr) = Inr None"
    by code_simp
  have h: "regex_check sample_RegExp (inputs ?env) ''bodyRegex'' ''11 things. Fixes TICK-43''
             = Inr (Some ''Fixes TICK-43'')"
    by code_simp
  from branch_without_id_rejected[OF refl refl a b c d e f g] h show ?thesis
    by simp
qed

text \<open>
  C5. The claim asks for the message about the missing body whenever the body is absent.
  The source does not give it for the body \<open>null\<close> of a pull request without description:
  line 125 tests for \<open>undefined\<close> only, so the sample run with the body \<open>null\<close> logs the
  body, lets \<open>exec\<close> read the text \<open>null\<close> and ends with the message that no ticket was
  referenced; with a body pattern that matches \<open>null\<close>, the title is rewritten from that
  text.
\<close>

theorem null_body_read_as_text:
  "body (pull_request (github (sample_env [] (sample_pr\<lparr>head_ref := ''feature/login'', body := Null\<rparr>)))) = Null
   \<and> run sample_RegExp (sample_env [] (sample_pr\<lparr>head_ref := ''feature/login'', body := Null\<rparr>)) =
       ([Log [], Log ''[CONTEXT]'', Log ''{}'', Log [], Log [], Log ''[TITLE]'', Log ''Add login flow'',
         Log [], Log [], Log ''[SENDER]'', Log ''alice'', Log [], Log [], Log ''[SENDER TYPE]'',
         Log ''User'', Log [], Log [], Log ''[QUIET MODE]'', Log ''false'', Log [], Log [],
         Log ''[EXEMPT USERS]'', Log ''dependabot,renovate'', Log [], Log [], Log ''[BODY CONTENTS]'',
         LogNull, Log [], Log [], Log ''[FAILURE]'',
         Log ''Title, branch, and body do not contain a reference to a ticket'', Log [],
         SetFailed ''No ticket was referenced in this pull request''],
        Rejected ''No ticket was referenced in this pull request'')
   \<and> snd (run sample_RegExp (sample_env [] (sample_pr\<lparr>head_ref := ''feature/login'', body := Null\<rparr>)))
       \<noteq> Rejected ''Could not retrieve the Pull Request body''
   \<and> requests (fst (run sample_RegExp
         (sample_env [(''bodyRegex'', ''null''), (''ticketRegex'', ''null'')]
            (sample_pr\<lparr>head_ref := ''feature/login'', body := Null\<rparr>))))
       = [PullsUpdate ''glowwVideo'' ''app'' 7 ''[TICK-null] Add login flow'',
          PullsCreateReview ''glowwVideo'' ''app'' 7 body_comment ''COMMENT'']"
  by code_simp

text \<open>
  The body stage for a body that is missing or a string. When the run reaches the body (no
  ticket in the title, no exemption, no match of the branch pattern): with the field
  missing, \<open>run\<close> marks the failure with the message about the missing body and sends no
  request. With a string that the body pattern matches, \<open>extractId\<close> is applied to the
  matched text \<open>mb\<close>, not to the body \<open>b\<close>: when it finds the identifier \<open>tid\<close> there, the
  title is rewritten with \<open>tid\<close> and \<open>run\<close> returns at line 172 (\<open>TitleUpdated Body\<close>); when it
  finds nothing there, the run is rejected with the message about the body, whatever the
  rest of the body holds.
\<close>

theorem body_stage:
  assumes "pr = pull_request (github env)" and "ins = inputs env"
    and "regex_check RegExp ins ''titleRegex'' (title pr) = Inr None"
    and "getInput ins ''token'' True = Inr tok"
    and "getInput ins ''quiet'' False = Inr q"
    and "getInput ins ''exemptUsers'' False = Inr eu"
    and "\<not> (sender_of (user_login pr) (user_type pr) \<noteq> []
          \<and> sender_of (user_login pr) (user_type pr) \<in> set (map trim (split_on CHR '','' eu)))"
    and "getInput ins ''ticketPrefix'' False = Inr tp"
    and "getInput ins ''titleFormat'' True = Inr tf"
    and "regex_check RegExp ins ''branchRegex'' (head_ref pr) = Inr None"
  shows "(body pr = Undefined \<longrightarrow>
            snd (run RegExp env) = Rejected ''Could not retrieve the Pull Request body''
            \<and> requests (fst (run RegExp env)) = []
            \<and> failures (fst (run RegExp env)) = [SetFailed ''Could not retrieve the Pull Request body''])
         \<and> (body pr = Text b \<and> regex_check RegExp ins ''bodyRegex'' b = Inr (Some mb)
              \<and> extractId RegExp ins mb = Inr (Some tid) \<longrightarrow>
            snd (run RegExp env) = TitleUpdated Body
            \<and> requests (fst (run RegExp env)) =
                  PullsUpdate (owner (github env)) (repo (github env)) (number (github env))
                    (new_title tf tp tid (title pr))
                  # (if q = ''true'' then []
                     else [PullsCreateReview (owner (github env)) (repo (github env)) (number (github env))
                             body_comment ''COMMENT''])
            \<and> failures (fst (run RegExp env)) = [])
         \<and> (body pr = Text b \<and> regex_check RegExp ins ''bodyRegex'' b = Inr (Some mb)
              \<and> extractId RegExp ins mb = Inr None \<longrightarrow>
            snd (run RegExp env) = Rejected ''Could not extract a ticket shorthand reference from the body''
            \<and> requests (fst (run RegExp env)) = []
            \<and> failures (fst (run RegExp env)) =
                  [SetFailed ''Could not extract a ticket shorthand reference from the body''])"
proof -
  note h = assms(3-10)[unfolded assms(1,2)]
  note to_body = run_to_body[OF h]
  have "body (pull_request (github env)) = Undefined \<Longrightarrow> ?thesis"
    unfolding assms(1,2)
    by (simp add: to_body[OF check_body_missing] requests_simps failures_simps)
  moreover have "body (pull_request (github env)) = Text b' \<Longrightarrow> ?thesis" for b'
    unfolding assms(1,2)
    by (auto simp: to_body[OF check_body_updated] to_body[OF check_body_no_id]
          requests_simps failures_simps)
  moreover have "body (pull_request (github env)) = Null \<Longrightarrow> ?thesis"
    unfolding assms(1,2) by simp
  ultimately show ?thesis
    by (cases "body (pull_request (github env))") auto
qed

theorem body_stage_witness:
  "snd (run sample_RegExp (sample_env [] (sample_pr\<lparr>head_ref := ''feature/login'', body := Undefined\<rparr>)))
     = Rejected ''Could not retrieve the Pull Request body''
   \<and> requests (fst (run sample_RegExp
         (sample_env [] (sample_pr\<lparr>head_ref := ''feature/login'', body := Undefined\<rparr>)))) = []
   \<and> snd (run sample_RegExp (sample_env [] (sample_pr\<lparr>head_ref := ''feature/login''\<rparr>)))
     = TitleUpdated Body
   \<and> requests (fst (run sample_RegExp (sample_env [] (sample_pr\<lparr>head_ref := ''feature/login''\<rparr>))))
     = [PullsUpdate ''glowwVideo'' ''app'' 7 ''[TICK-43] Add login flow'',
        PullsCreateReview ''glowwVideo'' ''app'' 7 body_comment ''COMMENT'']
   \<and> extractId sample_RegExp (inputs (sample_env [] sample_pr)) ''11 things. Fixes TICK-43''
     = Inr (Some ''11'')
   \<and> snd (run sample_RegExp
          (sample_env [(''bodyRegex'', ''Fixes'')] (sample_pr\<lparr>head_ref := ''feature/login''\<rparr>)))
     = Rejected ''Could not extract a ticket shorthand reference from the body''"
proof -
  let ?a = "sample_env [] (sample_pr\<lparr>head_ref := ''feature/login'', body := Undefined\<rparr>)"
  let ?b = "sample_env [] (sample_pr\<lparr>head_ref := ''feature/login''\<rparr>)"
  let ?c = "sample_env [(''bodyRegex'', ''Fixes'')] (sample_pr\<lparr>head_ref := ''feature/login''\<rparr>)"
  let ?not_exempt = "\<lambda>env. \<not> (sender_of (user_login (pull_request (github env))) (user_type (pull_request (github env))) \<noteq> []
          \<and> sender_of (user_login (pull_request (github env))) (user_type (pull_request (github env)))
               \<in> set (map trim (split_on CHR '','' ''dependabot, renovate'')))"
  have a: "regex_check sample_RegExp (inputs ?a) ''titleRegex'' (title (pull_request (github ?a))) = Inr None"
    "getInput (inputs ?a) ''token'' True = Inr ''secret''"
    "getInput (inputs ?a) ''quiet'' False = Inr ''false''"
    "getInput (inputs ?a) ''exemptUsers'' False = Inr ''dependabot, renovate''"
    "?not_exempt ?a"
    "getInput (inputs ?a) ''ticketPrefix'' False = Inr ''TICK''"
    "getInput (inputs ?a) ''titleFormat'' True = Inr ''[%prefix%-%id%] %title%''"
    "regex_check sample_RegExp (inputs ?a) ''branchRegex'' (head_ref (pull_request (github ?a))) = Inr None"
    by code_simp+
  have a': "body (pull_request (github ?a)) = Undefined"
    by code_simp
  have b: "regex_check sample_RegExp (inputs ?b) ''titleRegex'' (title (pull_request (github ?b))) = Inr None"
    "getInput (inputs ?b) ''token'' True = Inr ''secret''"
    "getInput (inputs ?b) ''quiet'' False = Inr ''false''"
    "getInput (inputs ?b) ''exemptUsers'' False = Inr ''dependabot, renovate''"
    "?not_exempt ?b"
    "getInput (inputs ?b) ''ticketPrefix'' False = Inr ''TICK''"
    "getInput (inputs ?b) ''titleFormat'' True = Inr ''[%prefix%-%id%] %title%''"
    "regex_check sample_RegExp (inputs ?b) ''branchRegex'' (head_ref (pull_request (github ?b))) = Inr None"
    by code_simp+
  have b': "body (pull_request (github ?b)) = Text ''11 things. Fixes TICK-43''"
    "regex_check sample_RegExp (inputs ?b) ''bodyRegex'' ''11 things. Fixes TICK-43'' = Inr (Some ''Fixes TICK-43'')"
    "extractId sample_RegExp (inputs ?b) ''Fixes TICK-43'' = Inr (Some ''43'')"
    by code_simp+
  have c: "regex_check sample_RegExp (inputs ?c) ''titleRegex'' (title (pull_request (github ?c))) = Inr None"
    "getInput (inputs ?c) ''token'' True = Inr ''secret''"
    "getInput (inputs ?c) ''quiet'' False = Inr ''false''"
    "getInput (inputs ?c) ''exemptUsers'' False = Inr ''dependabot, renovate''"
    "?not_exempt ?c"
    "getInput (inputs ?c) ''ticketPrefix'' False = Inr ''TICK''"
    "getInput (inputs ?c) ''titleFormat'' True = Inr ''[%prefix%-%id%] %title%''"
    "regex_check sample_RegExp (inputs ?c) ''branchRegex'' (head_ref (pull_request (github ?c))) = Inr None"
    by code_simp+
  have c': "body (pull_request (github ?c)) = Text ''11 things. Fixes TICK-43''"
    "regex_check sample_RegExp (inputs ?c) ''bodyRegex'' ''11 things. Fixes TICK-43'' = Inr (Some ''Fixes'')"
    "extractId sample_RegExp (inputs ?c) ''Fixes'' = Inr None"
    by code_simp+
  have t: "new_title ''[%prefix%-%id%] %title%'' ''TICK'' ''43'' ''Add login flow'' = ''[TICK-43] Add login flow''"
    by code_simp
  have g: "github ?b = \<lparr>pull_request = sample_pr\<lparr>head_ref := ''feature/login''\<rparr>, owner = ''glowwVideo'',
                repo = ''app'', number = 7, json = ''{}''\<rparr>"
    by (simp add: sample_env_def)
  have w: "extractId sample_RegExp (inputs (sample_env [] sample_pr)) ''11 things. Fixes TICK-43'' = Inr (Some ''11'')"
    by code_simp
  have ti: "title (sample_pr\<lparr>head_ref := ''feature/login''\<rparr>) = ''Add login flow''"
    by (simp add: sample_pr_def)
  from body_stage[OF refl refl a, of _ _ _] a'
       body_stage[OF refl refl b, of "''11 things. Fixes TICK-43''" "''Fixes TICK-43''" "''43''"] b'
       body_stage[OF refl refl c, of "''11 things. Fixes TICK-43''" "''Fixes''" _] c' w
  show ?thesis
    by (simp add: g t ti)
qed

text \<open>
  C6 (as amended). The new title of lines 102 to 105, for a prefix, an identifier and a
  title without a dollar sign: it is the template after three literal replacements made in
  this order, each of the first occurrence of its token: \<open>%prefix%\<close> by the prefix, then
  \<open>%id%\<close> by the identifier, then \<open>%title%\<close> by the title. The title is put in last and as it is:
  where the string reached after the first two replacements has its first \<open>%title%\<close>, the new
  title has the title, and nothing else changes; so a title that holds \<open>%id%\<close> keeps it. The
  template \<open>%prefix%-%id%: %title%\<close> with \<open>JIRA\<close>, \<open>1234\<close> and \<open>Fix bug\<close> gives
  \<open>JIRA-1234: Fix bug\<close>.
\<close>

theorem title_template_substitution:
  assumes "CHR ''$'' \<notin> set ticketPrefix" and "CHR ''$'' \<notin> set ticketId" and "CHR ''$'' \<notin> set prTitle"
  shows "new_title titleFormat ticketPrefix ticketId prTitle =
           substitute [(''%prefix%'', ticketPrefix), (''%id%'', ticketId), (''%title%'', prTitle)] titleFormat
         \<and> (replace (replace titleFormat ''%prefix%'' ticketPrefix) ''%id%'' ticketId = b @ ''%title%'' @ a
              \<and> (\<forall>b' a'. replace (replace titleFormat ''%prefix%'' ticketPrefix) ''%id%'' ticketId
                            = b' @ ''%title%'' @ a' \<longrightarrow> length b \<le> length b')
             \<longrightarrow> new_title titleFormat ticketPrefix ticketId prTitle = b @ prTitle @ a)
         \<and> ((\<forall>b a. replace (replace titleFormat ''%prefix%'' ticketPrefix) ''%id%'' ticketId
                       \<noteq> b @ ''%title%'' @ a)
             \<longrightarrow> new_title titleFormat ticketPrefix ticketId prTitle
                   = replace (replace titleFormat ''%prefix%'' ticketPrefix) ''%id%'' ticketId)
         \<and> new_title ''%prefix%-%id%: %title%'' ''JIRA'' ''1234'' ''Fix bug'' = ''JIRA-1234: Fix bug''
         \<and> new_title ''%prefix%-%id%: %title%'' ''JIRA'' ''1234'' ''Fix %id% bug''
             = ''JIRA-1234: Fix %id% bug''"
proof (intro conjI impI)
  show "new_title titleFormat ticketPrefix ticketId prTitle =
          substitute [(''%prefix%'', ticketPrefix), (''%id%'', ticketId), (''%title%'', prTitle)] titleFormat"
    by (simp add: new_title_def replace_literal[OF assms(1)] replace_literal[OF assms(2)]
          replace_literal[OF assms(3)])
next
  let ?s = "replace (replace titleFormat ''%prefix%'' ticketPrefix) ''%id%'' ticketId"
  assume h: "?s = b @ ''%title%'' @ a \<and> (\<forall>b' a'. ?s = b' @ ''%title%'' @ a' \<longrightarrow> length b \<le> length b')"
  have "replace ?s ''%title%'' prTitle = b @ expand ''%title%'' b a prTitle @ a"
    by (rule replace_first) (use h in blast)+
  then show "new_title titleFormat ticketPrefix ticketId prTitle = b @ prTitle @ a"
    by (simp add: new_title_def expand_literal[OF assms(3)])
next
  let ?s = "replace (replace titleFormat ''%prefix%'' ticketPrefix) ''%id%'' ticketId"
  assume "\<forall>b a. ?s \<noteq> b @ ''%title%'' @ a"
  then have "replace ?s ''%title%'' prTitle = ?s"
    by (intro replace_absent) simp
  then show "new_title titleFormat ticketPrefix ticketId prTitle = ?s"
    by (simp add: new_title_def)
next
  show "new_title ''%prefix%-%id%: %title%'' ''JIRA'' ''1234'' ''Fix bug'' = ''JIRA-1234: Fix bug''"
    by code_simp
next
  show "new_title ''%prefix%-%id%: %title%'' ''JIRA'' ''1234'' ''Fix %id% bug'' = ''JIRA-1234: Fix %id% bug''"
    by code_simp
qed

text \<open>
  The theorem at the sample template with a title that holds \<open>%id%\<close>, and at a template
  without \<open>%title%\<close>.
\<close>

theorem title_template_substitution_witness:
  "new_title ''[%prefix%-%id%] %title%'' ''TICK'' ''42'' ''Add %id% flow'' = ''[TICK-42] Add %id% flow''
   \<and> substitute [(''%prefix%'', ''TICK''), (''%id%'', ''42''), (''%title%'', ''Add %id% flow'')]
         ''[%prefix%-%id%] %title%'' = ''[TICK-42] Add %id% flow''
   \<and> new_title ''ticket %id%'' ''TICK'' ''42'' ''Add %id% flow'' = ''ticket 42''"
proof -
  have d: "CHR ''$'' \<notin> set ''TICK''" "CHR ''$'' \<notin> set ''42''" "CHR ''$'' \<notin> set ''Add %id% flow''"
    by simp_all
  have s: "substitute [(''%prefix%'', ''TICK''), (''%id%'', ''42''), (''%title%'', ''Add %id% flow'')]
             ''[%prefix%-%id%] %title%'' = ''[TICK-42] Add %id% flow''"
    by code_simp
  have e: "replace (replace ''[%prefix%-%id%] %title%'' ''%prefix%'' ''TICK'') ''%id%'' ''42''
             = ''[TICK-42] '' @ ''%title%'' @ []"
    by code_simp
  have f: "\<forall>b' a'. replace (replace ''[%prefix%-%id%] %title%'' ''%prefix%'' ''TICK'') ''%id%'' ''42''
             = b' @ ''%title%'' @ a' \<longrightarrow> length ''[TICK-42] '' \<le> length b'"
  proof (intro allI impI)
    fix b' a' :: string
    assume "replace (replace ''[%prefix%-%id%] %title%'' ''%prefix%'' ''TICK'') ''%id%'' ''42''
              = b' @ ''%title%'' @ a'"
    with e have "''[TICK-42] '' @ (CHR ''%'' # ''title%'') @ [] = b' @ (CHR ''%'' # ''title%'') @ a'"
      by simp
    moreover have "CHR ''%'' \<notin> set ''[TICK-42] ''" by simp
    ultimately show "length ''[TICK-42] '' \<le> length b'"
      by (rule first_occurrence_by_head[rotated])
  qed
  have g: "replace (replace ''ticket %id%'' ''%prefix%'' ''TICK'') ''%id%'' ''42'' = ''ticket 42''"
    by code_simp
  have n: "\<forall>b a. replace (replace ''ticket %id%'' ''%prefix%'' ''TICK'') ''%id%'' ''42''
             \<noteq> b @ ''%title%'' @ a"
    unfolding g by (intro allI no_occurrence_by_head) simp
  note t1 = title_template_substitution[OF d, where titleFormat = "''[%prefix%-%id%] %title%''"
      and b = "''[TICK-42] ''" and a = "[]"]
  note t2 = title_template_substitution[OF d, where titleFormat = "''ticket %id%''"]
  from t1 s have r1: "new_title ''[%prefix%-%id%] %title%'' ''TICK'' ''42'' ''Add %id% flow''
      = substitute [(''%prefix%'', ''TICK''), (''%id%'', ''42''), (''%title%'', ''Add %id% flow'')]
          ''[%prefix%-%id%] %title%''"
    by blast
  from t1 e f have r2: "new_title ''[%prefix%-%id%] %title%'' ''TICK'' ''42'' ''Add %id% flow''
      = ''[TICK-42] '' @ ''Add %id% flow'' @ []"
    by blast
  from t2 n have r3: "new_title ''ticket %id%'' ''TICK'' ''42'' ''Add %id% flow''
      = replace (replace ''ticket %id%'' ''%prefix%'' ''TICK'') ''%id%'' ''42''"
    by blast
  from r1 r2 r3 s g show ?thesis
    by simp
qed

text \<open>
  C6 as stated fails. The order matters: with the template \<open>%title% %id%\<close>, the identifier
  \<open>7\<close> and the title \<open>%id%\<close>, the order of the source gives \<open>%id% 7\<close>, and the three
  replacements made with the title first give \<open>7 %id%\<close>. And the value is not always put
  in as it is: the runtime reads \<open>$$\<close> in a replacement text as one dollar sign, so the
  title \<open>Cost $$5\<close> comes out as \<open>Cost $5\<close>.
\<close>

theorem title_template_order_counterexample:
  "new_title ''%title% %id%'' [] ''7'' ''%id%'' = ''%id% 7''
   \<and> replace (replace (replace ''%title% %id%'' ''%title%'' ''%id%'') ''%id%'' ''7'') ''%prefix%'' []
       = ''7 %id%''
   \<and> new_title ''%title% %id%'' [] ''7'' ''%id%''
       \<noteq> replace (replace (replace ''%title% %id%'' ''%title%'' ''%id%'') ''%id%'' ''7'') ''%prefix%'' []
   \<and> new_title ''%title%'' [] ''7'' ''Cost $$5'' = ''Cost $5''
   \<and> new_title ''%title%'' [] ''7'' ''Cost $$5'' \<noteq> ''Cost $$5''"
  by code_simp



text \<open>
  C8 (as amended). The source reads an input and compiles a pattern where it first needs
  it. A missing \<open>titleRegex\<close>, \<open>titleRegexFlags\<close> or \<open>token\<close>, or a title pattern that does not
  compile, ends every run right after the log of the context: the failure is marked with
  the message of the exception and nothing else happens. In a run that reaches the branch,
  a missing \<open>titleFormat\<close>, a missing or not compiling branch pattern, or (when the branch
  pattern matches) a missing or not compiling \<open>ticketRegex\<close> ends the run in the same way;
  so does, in a run that reaches a body that is a string, a missing or not compiling body
  pattern or (when the body pattern matches) \<open>ticketRegex\<close>. Whenever an exception leaves the \<open>try\<close> block, the
  failure is marked once with its message and no request has been sent. The inputs of
  later stages have no part in a run that ends before: a run with a matching title and a
  token is the same run, \<open>Approved\<close> and without failure, whatever the inputs other than
  \<open>titleRegex\<close>, \<open>titleRegexFlags\<close> and \<open>token\<close> are; an exempted run is the same run, whatever
  the inputs other than these three, \<open>quiet\<close> and \<open>exemptUsers\<close> are; and a run whose branch
  pattern matches is the same run, whatever \<open>bodyRegex\<close> and \<open>bodyRegexFlags\<close> are.
\<close>

theorem configuration_errors:
  assumes "pr = pull_request (github env)" and "ins = inputs env"
  shows "(getInput ins ''titleRegex'' True = Inl m
           \<or> (getInput ins ''titleRegex'' True = Inr base \<and> getInput ins ''titleRegexFlags'' True = Inl m)
           \<or> (getInput ins ''titleRegex'' True = Inr base \<and> getInput ins ''titleRegexFlags'' True = Inr flags
                \<and> RegExp base flags = Inl m)
           \<or> (regex_check RegExp ins ''titleRegex'' (title pr) = Inr tc \<and> getInput ins ''token'' True = Inl m)
          \<longrightarrow> run RegExp env = (debug ''context'' (json (github env)) @ [SetFailed m], Rejected m))
       \<and> (regex_check RegExp ins ''titleRegex'' (title pr) = Inr None
            \<and> getInput ins ''token'' True = Inr tok
            \<and> getInput ins ''exemptUsers'' False = Inr eu
            \<and> \<not> (sender_of (user_login pr) (user_type pr) \<noteq> []
                  \<and> sender_of (user_login pr) (user_type pr) \<in> set (map trim (split_on CHR '','' eu)))
            \<and> (getInput ins ''titleFormat'' True = Inl m
                 \<or> (getInput ins ''titleFormat'' True = Inr tf
                      \<and> regex_check RegExp ins ''branchRegex'' (head_ref pr) = Inl m)
                 \<or> (getInput ins ''titleFormat'' True = Inr tf
                      \<and> regex_check RegExp ins ''branchRegex'' (head_ref pr) = Inr (Some mb)
                      \<and> extractId RegExp ins (head_ref pr) = Inl m))
          \<longrightarrow> snd (run RegExp env) = Rejected m \<and> requests (fst (run RegExp env)) = []
               \<and> failures (fst (run RegExp env)) = [SetFailed m])
       \<and> (regex_check RegExp ins ''titleRegex'' (title pr) = Inr None
            \<and> getInput ins ''token'' True = Inr tok
            \<and> getInput ins ''exemptUsers'' False = Inr eu
            \<and> \<not> (sender_of (user_login pr) (user_type pr) \<noteq> []
                  \<and> sender_of (user_login pr) (user_type pr) \<in> set (map trim (split_on CHR '','' eu)))
            \<and> getInput ins ''titleFormat'' True = Inr tf
            \<and> regex_check RegExp ins ''branchRegex'' (head_ref pr) = Inr None
            \<and> body pr = Text b
            \<and> (regex_check RegExp ins ''bodyRegex'' b = Inl m
                 \<or> (regex_check RegExp ins ''bodyRegex'' b = Inr (Some mb)
                      \<and> extractId RegExp ins mb = Inl m))
          \<longrightarrow> snd (run RegExp env) = Rejected m \<and> requests (fst (run RegExp env)) = []
               \<and> failures (fst (run RegExp env)) = [SetFailed m])
       \<and> (snd (run_try RegExp env) = Inl m
          \<longrightarrow> snd (run RegExp env) = Rejected m \<and> requests (fst (run RegExp env)) = []
               \<and> failures (fst (run RegExp env)) = [SetFailed m])
       \<and> (regex_check RegExp ins ''titleRegex'' (title pr) = Inr (Some mt)
            \<and> getInput ins ''token'' True = Inr tok
            \<and> ins' ''titleRegex'' = ins ''titleRegex''
            \<and> ins' ''titleRegexFlags'' = ins ''titleRegexFlags''
            \<and> ins' ''token'' = ins ''token''
          \<longrightarrow> run RegExp (env\<lparr>inputs := ins'\<rparr>) = run RegExp env
               \<and> snd (run RegExp env) = Approved \<and> failures (fst (run RegExp env)) = [])
       \<and> (regex_check RegExp ins ''titleRegex'' (title pr) = Inr None
            \<and> getInput ins ''token'' True = Inr tok
            \<and> getInput ins ''exemptUsers'' False = Inr eu
            \<and> sender_of (user_login pr) (user_type pr) \<noteq> []
            \<and> sender_of (user_login pr) (user_type pr) \<in> set (map trim (split_on CHR '','' eu))
            \<and> ins' ''titleRegex'' = ins ''titleRegex''
            \<and> ins' ''titleRegexFlags'' = ins ''titleRegexFlags''
            \<and> ins' ''token'' = ins ''token''
            \<and> ins' ''quiet'' = ins ''quiet''
            \<and> ins' ''exemptUsers'' = ins ''exemptUsers''
          \<longrightarrow> run RegExp (env\<lparr>inputs := ins'\<rparr>) = run RegExp env
               \<and> snd (run RegExp env) = Exempted \<and> failures (fst (run RegExp env)) = [])
       \<and> (regex_check RegExp ins ''titleRegex'' (title pr) = Inr None
            \<and> getInput ins ''token'' True = Inr tok
            \<and> getInput ins ''exemptUsers'' False = Inr eu
            \<and> \<not> (sender_of (user_login pr) (user_type pr) \<noteq> []
                  \<and> sender_of (user_login pr) (user_type pr) \<in> set (map trim (split_on CHR '','' eu)))
            \<and> getInput ins ''titleFormat'' True = Inr tf
            \<and> regex_check RegExp ins ''branchRegex'' (head_ref pr) = Inr (Some mb)
            \<and> extractId RegExp ins (head_ref pr) = Inr x
            \<and> (\<forall>k. k \<noteq> ''bodyRegex'' \<and> k \<noteq> ''bodyRegexFlags'' \<longrightarrow> ins' k = ins k)
          \<longrightarrow> run RegExp (env\<lparr>inputs := ins'\<rparr>) = run RegExp env)"
proof (intro conjI impI)
  assume "getInput ins ''titleRegex'' True = Inl m
           \<or> (getInput ins ''titleRegex'' True = Inr base \<and> getInput ins ''titleRegexFlags'' True = Inl m)
           \<or> (getInput ins ''titleRegex'' True = Inr base \<and> getInput ins ''titleRegexFlags'' True = Inr flags
                \<and> RegExp base flags = Inl m)
           \<or> (regex_check RegExp ins ''titleRegex'' (title pr) = Inr tc \<and> getInput ins ''token'' True = Inl m)"
  then show "run RegExp env = (debug ''context'' (json (github env)) @ [SetFailed m], Rejected m)"
    unfolding assms by (rule run_title_phase_thrown)
next
  assume h: "regex_check RegExp ins ''titleRegex'' (title pr) = Inr None
            \<and> getInput ins ''token'' True = Inr tok
            \<and> getInput ins ''exemptUsers'' False = Inr eu
            \<and> \<not> (sender_of (user_login pr) (user_type pr) \<noteq> []
                  \<and> sender_of (user_login pr) (user_type pr) \<in> set (map trim (split_on CHR '','' eu)))
            \<and> (getInput ins ''titleFormat'' True = Inl m
                 \<or> (getInput ins ''titleFormat'' True = Inr tf
                      \<and> regex_check RegExp ins ''branchRegex'' (head_ref pr) = Inl m)
                 \<or> (getInput ins ''titleFormat'' True = Inr tf
                      \<and> regex_check RegExp ins ''branchRegex'' (head_ref pr) = Inr (Some mb)
                      \<and> extractId RegExp ins (head_ref pr) = Inl m))"
  have t: "snd (run_try RegExp env) = Inl m"
    by (rule run_try_branch_thrown[where tok = tok and eu = eu and tf = tf and mb = mb])
       (use h[unfolded assms] in blast)+
  from run_thrown_facts[OF t]
  show "snd (run RegExp env) = Rejected m" "requests (fst (run RegExp env)) = []"
    "failures (fst (run RegExp env)) = [SetFailed m]"
    by simp_all
next
  assume h: "regex_check RegExp ins ''titleRegex'' (title pr) = Inr None
            \<and> getInput ins ''token'' True = Inr tok
            \<and> getInput ins ''exemptUsers'' False = Inr eu
            \<and> \<not> (sender_of (user_login pr) (user_type pr) \<noteq> []
                  \<and> sender_of (user_login pr) (user_type pr) \<in> set (map trim (split_on CHR '','' eu)))
            \<and> getInput ins ''titleFormat'' True = Inr tf
            \<and> regex_check RegExp ins ''branchRegex'' (head_ref pr) = Inr None
            \<and> body pr = Text b
            \<and> (regex_check RegExp ins ''bodyRegex'' b = Inl m
                 \<or> (regex_check RegExp ins ''bodyRegex'' b = Inr (Some mb)
                      \<and> extractId RegExp ins mb = Inl m))"
  have t: "snd (run_try RegExp env) = Inl m"
    by (rule run_try_body_thrown[where tok = tok and eu = eu and tf = tf and mb = mb and b = b])
       (use h[unfolded assms] in blast)+
  from run_thrown_facts[OF t]
  show "snd (run RegExp env) = Rejected m" "requests (fst (run RegExp env)) = []"
    "failures (fst (run RegExp env)) = [SetFailed m]"
    by simp_all
next
  assume t: "snd (run_try RegExp env) = Inl m"
  from run_thrown_facts[OF t]
  show "snd (run RegExp env) = Rejected m" "requests (fst (run RegExp env)) = []"
    "failures (fst (run RegExp env)) = [SetFailed m]"
    by simp_all
next
  assume h: "regex_check RegExp ins ''titleRegex'' (title pr) = Inr (Some mt)
            \<and> getInput ins ''token'' True = Inr tok
            \<and> ins' ''titleRegex'' = ins ''titleRegex''
            \<and> ins' ''titleRegexFlags'' = ins ''titleRegexFlags''
            \<and> ins' ''token'' = ins ''token''"
  from run_approved_inputs[of RegExp env mt tok ins'] h[unfolded assms]
  show "run RegExp (env\<lparr>inputs := ins'\<rparr>) = run RegExp env" "snd (run RegExp env) = Approved"
    "failures (fst (run RegExp env)) = []"
    by blast+
next
  assume h: "regex_check RegExp ins ''titleRegex'' (title pr) = Inr None
            \<and> getInput ins ''token'' True = Inr tok
            \<and> getInput ins ''exemptUsers'' False = Inr eu
            \<and> sender_of (user_login pr) (user_type pr) \<noteq> []
            \<and> sender_of (user_login pr) (user_type pr) \<in> set (map trim (split_on CHR '','' eu))
            \<and> ins' ''titleRegex'' = ins ''titleRegex''
            \<and> ins' ''titleRegexFlags'' = ins ''titleRegexFlags''
            \<and> ins' ''token'' = ins ''token''
            \<and> ins' ''quiet'' = ins ''quiet''
            \<and> ins' ''exemptUsers'' = ins ''exemptUsers''"
  from run_exempted_inputs[of RegExp env tok eu ins'] h[unfolded assms]
  show "run RegExp (env\<lparr>inputs := ins'\<rparr>) = run RegExp env" "snd (run RegExp env) = Exempted"
    "failures (fst (run RegExp env)) = []"
    by blast+
next
  assume h: "regex_check RegExp ins ''titleRegex'' (title pr) = Inr None
            \<and> getInput ins ''token'' True = Inr tok
            \<and> getInput ins ''exemptUsers'' False = Inr eu
            \<and> \<not> (sender_of (user_login pr) (user_type pr) \<noteq> []
                  \<and> sender_of (user_login pr) (user_type pr) \<in> set (map trim (split_on CHR '','' eu)))
            \<and> getInput ins ''titleFormat'' True = Inr tf
            \<and> regex_check RegExp ins ''branchRegex'' (head_ref pr) = Inr (Some mb)
            \<and> extractId RegExp ins (head_ref pr) = Inr x
            \<and> (\<forall>k. k \<noteq> ''bodyRegex'' \<and> k \<noteq> ''bodyRegexFlags'' \<longrightarrow> ins' k = ins k)"
  from run_branch_match_inputs[of RegExp env tok eu tf mb x ins'] h[unfolded assms]
  show "run RegExp (env\<lparr>inputs := ins'\<rparr>) = run RegExp env"
    by blast
qed

text \<open>
  The theorem at seven sample runs: a title pattern that does not compile, no title format,
  no \<open>ticketRegex\<close> when the body is reached, a branch pattern that does not compile; and
  an approved run, an exempted run and a run with a matching branch, each with the inputs
  it does not read taken away.
\<close>

theorem configuration_errors_witness:
  "run sample_RegExp (sample_env [(''titleRegex'', ''('')] sample_pr) =
     ([Log [], Log ''[CONTEXT]'', Log ''{}'', Log [], SetFailed ''Invalid regular expression: /(/''],
      Rejected ''Invalid regular expression: /(/'')
   \<and> snd (run sample_RegExp (sample_env [(''titleFormat'', [])] sample_pr))
     = Rejected ''Input required and not supplied: titleFormat''
   \<and> requests (fst (run sample_RegExp (sample_env [(''titleFormat'', [])] sample_pr))) = []
   \<and> snd (run sample_RegExp (sample_env [(''ticketRegex'', [])] (sample_pr\<lparr>head_ref := ''feature/login''\<rparr>)))
     = Rejected ''Input required and not supplied: ticketRegex''
   \<and> requests (fst (run sample_RegExp
         (sample_env [(''ticketRegex'', [])] (sample_pr\<lparr>head_ref := ''feature/login''\<rparr>)))) = []
   \<and> snd (run sample_RegExp (sample_env [(''branchRegex'', ''('')] sample_pr))
     = Rejected ''Invalid regular expression: /(/''
   \<and> requests (fst (run sample_RegExp (sample_env [(''branchRegex'', ''('')] sample_pr))) = []
   \<and> run sample_RegExp
        ((sample_env [] (sample_pr\<lparr>title := ''TICK-7 Add login flow''\<rparr>))
           \<lparr>inputs := map_of [(''titleRegex'', ''TICK-[0-9]+''), (''titleRegexFlags'', ''g''),
                               (''token'', ''secret'')]\<rparr>)
       = run sample_RegExp (sample_env [] (sample_pr\<lparr>title := ''TICK-7 Add login flow''\<rparr>))
   \<and> snd (run sample_RegExp (sample_env [] (sample_pr\<lparr>title := ''TICK-7 Add login flow''\<rparr>))) = Approved
   \<and> run sample_RegExp
        ((sample_env [] (sample_pr\<lparr>user_login := ''dependabot[bot]'', user_type := ''Bot''\<rparr>))
           \<lparr>inputs := map_of [(''titleRegex'', ''TICK-[0-9]+''), (''titleRegexFlags'', ''g''),
                               (''token'', ''secret''), (''quiet'', ''false''),
                               (''exemptUsers'', ''dependabot, renovate'')]\<rparr>)
       = run sample_RegExp (sample_env [] (sample_pr\<lparr>user_login := ''dependabot[bot]'', user_type := ''Bot''\<rparr>))
   \<and> snd (run sample_RegExp (sample_env [] (sample_pr\<lparr>user_login := ''dependabot[bot]'', user_type := ''Bot''\<rparr>)))
       = Exempted
   \<and> run sample_RegExp
        ((sample_env [] sample_pr)
           \<lparr>inputs := (inputs (sample_env [] sample_pr))(''bodyRegex'' := None, ''bodyRegexFlags'' := None)\<rparr>)
       = run sample_RegExp (sample_env [] sample_pr)"
proof -
  let ?a = "sample_env [(''titleRegex'', ''('')] sample_pr"
  let ?c = "sample_env [(''titleFormat'', [])] sample_pr"
  let ?d = "sample_env [(''ticketRegex'', [])] (sample_pr\<lparr>head_ref := ''feature/login''\<rparr>)"
  let ?b = "sample_env [(''branchRegex'', ''('')] sample_pr"
  let ?not_exempt = "\<lambda>env. \<not> (sender_of (user_login (pull_request (github env))) (user_type (pull_request (github env))) \<noteq> []
          \<and> sender_of (user_login (pull_request (github env))) (user_type (pull_request (github env)))
               \<in> set (map trim (split_on CHR '','' ''dependabot, renovate'')))"
  have a: "getInput (inputs ?a) ''titleRegex'' True = Inr ''(''"
    "getInput (inputs ?a) ''titleRegexFlags'' True = Inr ''g''"
    by code_simp+
  have a': "sample_RegExp ''('' ''g'' = Inl ''Invalid regular expression: /(/''"
    by (simp add: sample_RegExp_def is_meta_def)
  have ja: "debug ''context'' (json (github ?a)) = [Log [], Log ''[CONTEXT]'', Log ''{}'', Log []]"
    by code_simp
  have c: "regex_check sample_RegExp (inputs ?c) ''titleRegex'' (title (pull_request (github ?c))) = Inr None"
    "getInput (inputs ?c) ''token'' True = Inr ''secret''"
    "getInput (inputs ?c) ''exemptUsers'' False = Inr ''dependabot, renovate''"
    "?not_exempt ?c"
    "getInput (inputs ?c) ''titleFormat'' True = Inl ''Input required and not supplied: titleFormat''"
    by code_simp+
  have d: "regex_check sample_RegExp (inputs ?d) ''titleRegex'' (title (pull_request (github ?d))) = Inr None"
    "getInput (inputs ?d) ''token'' True = Inr ''secret''"
    "getInput (inputs ?d) ''exemptUsers'' False = Inr ''dependabot, renovate''"
    "?not_exempt ?d"
    "getInput (inputs ?d) ''titleFormat'' True = Inr ''[%prefix%-%id%] %title%''"
    "regex_check sample_RegExp (inputs ?d) ''branchRegex'' (head_ref (pull_request (github ?d))) = Inr None"
    "body (pull_request (github ?d)) = Text ''11 things. Fixes TICK-43''"
    "regex_check sample_RegExp (inputs ?d) ''bodyRegex'' ''11 things. Fixes TICK-43'' = Inr (Some ''Fixes TICK-43'')"
    "extractId sample_RegExp (inputs ?d) ''Fixes TICK-43'' = Inl ''Input required and not supplied: ticketRegex''"
    by code_simp+
  have b: "snd (run_try sample_RegExp ?b) = Inl ''Invalid regular expression: /(/''"
    by code_simp
  note ta = configuration_errors[OF refl refl, where env = ?a and RegExp = sample_RegExp
      and m = "''Invalid regular expression: /(/''" and base = "''(''" and flags = "''g''"]
  note tc = configuration_errors[OF refl refl, where env = ?c and RegExp = sample_RegExp
      and m = "''Input required and not supplied: titleFormat''" and tok = "''secret''"
      and eu = "''dependabot, renovate''"]
  note td = configuration_errors[OF refl refl, where env = ?d and RegExp = sample_RegExp
      and m = "''Input required and not supplied: ticketRegex''" and tok = "''secret''"
      and eu = "''dependabot, renovate''" and tf = "''[%prefix%-%id%] %title%''"
      and b = "''11 things. Fixes TICK-43''" and mb = "''Fixes TICK-43''"]
  note tb = configuration_errors[OF refl refl, where env = ?b and RegExp = sample_RegExp
      and m = "''Invalid regular expression: /(/''"]
  from ta a a' have ra: "run sample_RegExp ?a =
      (debug ''context'' (json (github ?a)) @ [SetFailed ''Invalid regular expression: /(/''],
       Rejected ''Invalid regular expression: /(/'')"
    by blast
  from tc c have rc: "snd (run sample_RegExp ?c) = Rejected ''Input required and not supplied: titleFormat''"
      "requests (fst (run sample_RegExp ?c)) = []"
    by blast+
  from td d have rd: "snd (run sample_RegExp ?d) = Rejected ''Input required and not supplied: ticketRegex''"
      "requests (fst (run sample_RegExp ?d)) = []"
    by blast+
  from tb b have rb: "snd (run sample_RegExp ?b) = Rejected ''Invalid regular expression: /(/''"
      "requests (fst (run sample_RegExp ?b)) = []"
    by blast+
  let ?e = "sample_env [] (sample_pr\<lparr>title := ''TICK-7 Add login flow''\<rparr>)"
  let ?ie = "map_of [(''titleRegex'', ''TICK-[0-9]+''), (''titleRegexFlags'', ''g''), (''token'', ''secret'')]"
  let ?f = "sample_env [] (sample_pr\<lparr>user_login := ''dependabot[bot]'', user_type := ''Bot''\<rparr>)"
  let ?if = "map_of [(''titleRegex'', ''TICK-[0-9]+''), (''titleRegexFlags'', ''g''), (''token'', ''secret''),
                     (''quiet'', ''false''), (''exemptUsers'', ''dependabot, renovate'')]"
  let ?g = "sample_env [] sample_pr"
  let ?ig = "(inputs ?g)(''bodyRegex'' := None, ''bodyRegexFlags'' := None)"
  have e: "regex_check sample_RegExp (inputs ?e) ''titleRegex'' (title (pull_request (github ?e))) = Inr (Some ''TICK-7'')"
    "getInput (inputs ?e) ''token'' True = Inr ''secret''"
    by code_simp+
  have e': "?ie ''titleRegex'' = inputs ?e ''titleRegex''" "?ie ''titleRegexFlags'' = inputs ?e ''titleRegexFlags''"
    "?ie ''token'' = inputs ?e ''token''"
    by (simp_all add: sample_env_def sample_inputs_def)
  have f: "regex_check sample_RegExp (inputs ?f) ''titleRegex'' (title (pull_request (github ?f))) = Inr None"
    "getInput (inputs ?f) ''token'' True = Inr ''secret''"
    "getInput (inputs ?f) ''exemptUsers'' False = Inr ''dependabot, renovate''"
    "sender_of (user_login (pull_request (github ?f))) (user_type (pull_request (github ?f))) \<noteq> []"
    "sender_of (user_login (pull_request (github ?f))) (user_type (pull_request (github ?f)))
       \<in> set (map trim (split_on CHR '','' ''dependabot, renovate''))"
    by code_simp+
  have f': "?if ''titleRegex'' = inputs ?f ''titleRegex''" "?if ''titleRegexFlags'' = inputs ?f ''titleRegexFlags''"
    "?if ''token'' = inputs ?f ''token''" "?if ''quiet'' = inputs ?f ''quiet''"
    "?if ''exemptUsers'' = inputs ?f ''exemptUsers''"
    by (simp_all add: sample_env_def sample_inputs_def)
  have g: "regex_check sample_RegExp (inputs ?g) ''titleRegex'' (title (pull_request (github ?g))) = Inr None"
    "getInput (inputs ?g) ''token'' True = Inr ''secret''"
    "getInput (inputs ?g) ''exemptUsers'' False = Inr ''dependabot, renovate''"
    "?not_exempt ?g"
    "getInput (inputs ?g) ''titleFormat'' True = Inr ''[%prefix%-%id%] %title%''"
    "regex_check sample_RegExp (inputs ?g) ''branchRegex'' (head_ref (pull_request (github ?g))) = Inr (Some ''TICK-42'')"
    "extractId sample_RegExp (inputs ?g) (head_ref (pull_request (github ?g))) = Inr (Some ''42'')"
    by code_simp+
  have g': "\<forall>k. k \<noteq> ''bodyRegex'' \<and> k \<noteq> ''bodyRegexFlags'' \<longrightarrow> ?ig k = inputs ?g k"
    by simp
  note te = configuration_errors[OF refl refl, where env = ?e and RegExp = sample_RegExp
      and mt = "''TICK-7''" and tok = "''secret''" and ins' = ?ie]
  note tf = configuration_errors[OF refl refl, where env = ?f and RegExp = sample_RegExp
      and tok = "''secret''" and eu = "''dependabot, renovate''" and ins' = ?if]
  note tg = configuration_errors[OF refl refl, where env = ?g and RegExp = sample_RegExp
      and tok = "''secret''" and eu = "''dependabot, renovate''" and tf = "''[%prefix%-%id%] %title%''"
      and mb = "''TICK-42''" and x = "Some ''42''" and ins' = ?ig]
  note pe = te[THEN conjunct2, THEN conjunct2, THEN conjunct2, THEN conjunct2, THEN conjunct1, THEN mp]
  note pf = tf[THEN conjunct2, THEN conjunct2, THEN conjunct2, THEN conjunct2, THEN conjunct2,
      THEN conjunct1, THEN mp]
  note pg = tg[THEN conjunct2, THEN conjunct2, THEN conjunct2, THEN conjunct2, THEN conjunct2,
      THEN conjunct2, THEN mp]
  have he: "run sample_RegExp (?e\<lparr>inputs := ?ie\<rparr>) = run sample_RegExp ?e
      \<and> snd (run sample_RegExp ?e) = Approved \<and> failures (fst (run sample_RegExp ?e)) = []"
    by (rule pe) (intro conjI e e')
  have hf: "run sample_RegExp (?f\<lparr>inputs := ?if\<rparr>) = run sample_RegExp ?f
      \<and> snd (run sample_RegExp ?f) = Exempted \<and> failures (fst (run sample_RegExp ?f)) = []"
    by (rule pf) (intro conjI f f')
  have rg: "run sample_RegExp (?g\<lparr>inputs := ?ig\<rparr>) = run sample_RegExp ?g"
    by (rule pg) (intro conjI g g')
  note re = he[THEN conjunct1] he[THEN conjunct2, THEN conjunct1]
  note rf = hf[THEN conjunct1] hf[THEN conjunct2, THEN conjunct1]
  from ra have ra': "run sample_RegExp ?a =
      ([Log [], Log ''[CONTEXT]'', Log ''{}'', Log [], SetFailed ''Invalid regular expression: /(/''],
       Rejected ''Invalid regular expression: /(/'')"
    by (simp add: ja)
  show ?thesis
    by (intro conjI ra' rc rd rb re rf rg)
qed

text \<open>
  C8 as stated fails: in the sample run with a matching title, a branch pattern that does
  not compile and no \<open>bodyRegex\<close>, \<open>ticketRegex\<close> and \<open>titleFormat\<close>, the run returns at line 52
  (\<open>Approved\<close>) and marks no failure; these inputs are never read.
\<close>

theorem configuration_errors_unnoticed_counterexample:
  "getInput
     (inputs (sample_env [(''branchRegex'', ''(''), (''bodyRegex'', []), (''ticketRegex'', []), (''titleFormat'', [])]
        (sample_pr\<lparr>title := ''TICK-7 Add login flow''\<rparr>)))
     ''bodyRegex'' True = Inl ''Input required and not supplied: bodyRegex''
   \<and> regex_check sample_RegExp
     (inputs (sample_env [(''branchRegex'', ''(''), (''bodyRegex'', []), (''ticketRegex'', []), (''titleFormat'', [])]
        (sample_pr\<lparr>title := ''TICK-7 Add login flow''\<rparr>)))
     ''branchRegex'' ''feature/TICK-42-login'' = Inl ''Invalid regular expression: /(/''
   \<and> snd (run sample_RegExp
       (sample_env [(''branchRegex'', ''(''), (''bodyRegex'', []), (''ticketRegex'', []), (''titleFormat'', [])]
          (sample_pr\<lparr>title := ''TICK-7 Add login flow''\<rparr>))) = Approved
   \<and> failures (fst (run sample_RegExp
       (sample_env [(''branchRegex'', ''(''), (''bodyRegex'', []), (''ticketRegex'', []), (''titleFormat'', [])]
          (sample_pr\<lparr>title := ''TICK-7 Add login flow''\<rparr>)))) = []"
  by code_simp



text \<open>
  C10. When the compiled title pattern matches the title and no token is supplied,
  reading the token throws at line 39: the \<open>catch\<close> clause marks the run as failed with the
  message of the exception, after the log of the context and before the log of the
  title. The run does not return \<open>Approved\<close>, and it sends no request.
\<close>

theorem approval_needs_token:
  assumes "regex_check RegExp (inputs env) ''titleRegex'' (title (pull_request (github env))) = Inr (Some m)"
    and "input_value (inputs env) ''token'' = []"
  shows "run RegExp env =
           (debug ''context'' (json (github env)) @ [SetFailed ''Input required and not supplied: token''],
            Rejected ''Input required and not supplied: token'')
         \<and> snd (run RegExp env) \<noteq> Approved
         \<and> requests (fst (run RegExp env)) = []
         \<and> failures (fst (run RegExp env)) = [SetFailed ''Input required and not supplied: token'']"
proof -
  have t: "getInput (inputs env) ''token'' True = Inl ''Input required and not supplied: token''"
    using assms(2) by (simp add: getInput_def)
  show ?thesis
    by (simp add: run_token_error[OF assms(1) t] requests_simps failures_simps)
qed

theorem approval_needs_token_witness:
  "run sample_RegExp (sample_env [(''token'', [])] (sample_pr\<lparr>title := ''TICK-7 Add login flow''\<rparr>)) =
     ([Log [], Log ''[CONTEXT]'', Log ''{}'', Log [],
       SetFailed ''Input required and not supplied: token''],
      Rejected ''Input required and not supplied: token'')"
proof -
  let ?env = "sample_env [(''token'', [])] (sample_pr\<lparr>title := ''TICK-7 Add login flow''\<rparr>)"
  have a: "regex_check sample_RegExp (inputs ?env) ''titleRegex'' (title (pull_request (github ?env)))
             = Inr (Some ''TICK-7'')"
    by code_simp
  have b: "input_value (inputs ?env) ''token'' = []"
    by code_simp
  have c: "debug ''context'' ''{}'' = [Log [], Log ''[CONTEXT]'', Log ''{}'', Log []]"
    by code_simp
  from approval_needs_token[OF a b] show ?thesis
    by (simp add: sample_env_def c)
qed

end
